theory Spec2Isabelle
  imports Main "HOL-Library.Multiset"
begin

section \<open>Data model\<close>

text \<open>
  A Go slice is a list that may also be nil. \<open>len\<close> of a nil slice is 0 and a
  \<open>range\<close> loop over it runs no iteration, so both read it as the empty list;
  only a nil test tells the two apart.
\<close>

type_synonym 'a slice = "'a list option"

definition len :: "'a slice \<Rightarrow> nat" where
  "len s = (case s of None \<Rightarrow> 0 | Some xs \<Rightarrow> length xs)"

definition elems :: "'a slice \<Rightarrow> 'a list" where
  "elems s = (case s of None \<Rightarrow> [] | Some xs \<Rightarrow> xs)"

text \<open>\<open>v1alpha1.AdGroup\<close>: a desired grant.\<close>

record AdGroup =
  ad_Name :: string
  ad_Permission :: string

text \<open>\<open>bitbucket.Group\<close>: a grant as the server reports it.\<close>

record Group =
  g_Name :: string
  g_Permission :: string

section \<open>Comparing desired and remote grants\<close>

text \<open>
  The inner loop of \<open>groupsEqual\<close>: \<open>found\<close> becomes true at the first remote
  grant with the name and the permission of \<open>crGroup\<close>.
\<close>

fun groupsEqual_found :: "AdGroup \<Rightarrow> Group list \<Rightarrow> bool" where
  "groupsEqual_found crGroup [] = False"
| "groupsEqual_found crGroup (grp # groups) =
     (if ad_Name crGroup = g_Name grp \<and> ad_Permission crGroup = g_Permission grp
      then True
      else groupsEqual_found crGroup groups)"

text \<open>The outer loop: the first desired grant that is not found ends it with false.\<close>

fun groupsEqual_loop :: "AdGroup list \<Rightarrow> Group list \<Rightarrow> bool" where
  "groupsEqual_loop [] groups = True"
| "groupsEqual_loop (crGroup # crGroups) groups =
     (if \<not> groupsEqual_found crGroup groups then False
      else groupsEqual_loop crGroups groups)"

definition groupsEqual :: "AdGroup slice \<Rightarrow> Group slice \<Rightarrow> bool" where
  "groupsEqual crGroups groups =
     (if len crGroups \<noteq> len groups then False
      else groupsEqual_loop (elems crGroups) (elems groups))"

text \<open>The (name, permission) pairs of a desired and of a remote grant list.\<close>

definition desired_pairs :: "AdGroup slice \<Rightarrow> (string \<times> string) set" where
  "desired_pairs crGroups = set (map (\<lambda>a. (ad_Name a, ad_Permission a)) (elems crGroups))"

definition remote_pairs :: "Group slice \<Rightarrow> (string \<times> string) set" where
  "remote_pairs groups = set (map (\<lambda>g. (g_Name g, g_Permission g)) (elems groups))"

section \<open>Errors\<close>

text \<open>
  The error values the program builds or receives. The first four are the sentinel
  values of the package \<open>bitbucket\<close>. \<open>StatusError url code\<close> is
  \<open>fmt.Errorf("%s returned %d", url, code)\<close>; \<open>Wrap msg err\<close> is an error
  that wraps \<open>err\<close> under the message \<open>msg\<close> (\<open>fmt.Errorf\<close> with \<open>%w\<close> and
  \<open>errors.Wrap\<close>); \<open>New msg\<close> is \<open>errors.New(msg)\<close>; \<open>JsonSyntaxError\<close> is
  a \<open>*json.SyntaxError\<close>; \<open>LibraryError\<close> is any other error of the standard
  library (network, URL parsing, body reading, JSON type mismatches).
\<close>

datatype error =
    ErrPermission
  | ErrNotFound
  | ErrResponseMalformed
  | ErrConflict
  | StatusError string int
  | Wrap string error
  | New string
  | JsonSyntaxError string
  | LibraryError string

text \<open>
  \<open>errors.Is(err, target)\<close> for a sentinel \<open>target\<close>: the chain of wrapped errors
  is searched for the target.
\<close>

fun errors_Is :: "error \<Rightarrow> error \<Rightarrow> bool" where
  "errors_Is (Wrap msg err) target = errors_Is err target"
| "errors_Is err target = (err = target)"

text \<open>\<open>errors.As(err, &jsonErr)\<close> with \<open>jsonErr\<close> a \<open>*json.SyntaxError\<close>.\<close>

fun errors_As_SyntaxError :: "error \<Rightarrow> bool" where
  "errors_As_SyntaxError (JsonSyntaxError msg) = True"
| "errors_As_SyntaxError (Wrap msg err) = errors_As_SyntaxError err"
| "errors_As_SyntaxError err = False"

section \<open>The repository service as the controller sees it\<close>

text \<open>\<open>bitbucket.Repository\<close>.\<close>

record Repository =
  r_ID :: int
  r_Name :: string
  r_Public :: bool
  r_Project :: string
  r_Description :: string

text \<open>
  The interface \<open>RepositoryService\<close>. Every method talks to a remote server, so it
  takes the state \<open>'s\<close> of the world and returns the new one. A method that returns
  \<open>(*Repository, error)\<close> is a sum: every return statement of the implementation
  gives either the error or the value. A method that returns only \<open>error\<close> gives
  \<open>None\<close> for nil. \<open>GetGroups\<close> keeps the pair of Go, because \<open>Observe\<close> reads the
  slice without testing the error.
\<close>

record 's RepositoryService =
  svc_Get :: "Repository \<Rightarrow> 's \<Rightarrow> (error + Repository) \<times> 's"
  svc_Create :: "Repository \<Rightarrow> 's \<Rightarrow> (error + Repository) \<times> 's"
  svc_Update :: "Repository \<Rightarrow> 's \<Rightarrow> (error + Repository) \<times> 's"
  svc_Delete :: "Repository \<Rightarrow> 's \<Rightarrow> error option \<times> 's"
  svc_GetGroups :: "Repository \<Rightarrow> 's \<Rightarrow> (Group slice \<times> error option) \<times> 's"
  svc_AddGroup :: "Repository \<Rightarrow> Group \<Rightarrow> 's \<Rightarrow> error option \<times> 's"
  svc_RevokeGroup :: "Repository \<Rightarrow> Group \<Rightarrow> 's \<Rightarrow> error option \<times> 's"

section \<open>The managed resource\<close>

text \<open>\<open>v1alpha1.RepositoryParameters\<close>: the desired state.\<close>

record RepositoryParameters =
  p_Name :: string
  p_Project :: string
  p_Public :: bool
  p_Description :: string
  p_Groups :: "AdGroup slice"

text \<open>
  The conditions the controller sets; all three have the type Ready, so setting one
  replaces the one before.
\<close>

datatype Condition = Available | Creating | Deleting

text \<open>
  \<open>v1alpha1.Repository\<close>, with the fields the controller reads and writes:
  \<open>Spec.ForProvider\<close>, \<open>Status.AtProvider.ID\<close>, the Ready condition and the
  external-name annotation.
\<close>

record RepositoryCR =
  cr_ForProvider :: RepositoryParameters
  cr_AtProvider_ID :: int
  cr_Ready :: "Condition option"
  cr_ExternalName :: "string option"

text \<open>
  A \<open>resource.Managed\<close> value: the type assertion \<open>mg.(*v1alpha1.Repository)\<close>
  succeeds on the first constructor only.
\<close>

datatype Managed = RepositoryMG RepositoryCR | OtherMG

text \<open>\<open>managed.ConnectionDetails\<close>: a map that may be nil.\<close>

type_synonym ConnectionDetails = "(string \<times> string) list option"

record ExternalObservation =
  ResourceExists :: bool
  ResourceUpToDate :: bool
  obs_ConnectionDetails :: ConnectionDetails

record ExternalCreation =
  creation_ConnectionDetails :: ConnectionDetails

record ExternalUpdate =
  update_ConnectionDetails :: ConnectionDetails

definition errNotRepository :: string where
  "errNotRepository = ''managed resource is not a Repository custom resource''"

section \<open>The controller\<close>

text \<open>
  The struct literals the operations pass to the service: \<open>Observe\<close> and
  \<open>Delete\<close> give the name and the project, \<open>Create\<close> and \<open>Update\<close> give the
  description as well. The other fields keep their zero values.
\<close>

definition repoRef :: "RepositoryCR \<Rightarrow> Repository" where
  "repoRef cr =
     \<lparr>r_ID = 0, r_Name = p_Name (cr_ForProvider cr), r_Public = False,
      r_Project = p_Project (cr_ForProvider cr), r_Description = ''''\<rparr>"

definition repoToCreate :: "RepositoryCR \<Rightarrow> Repository" where
  "repoToCreate cr =
     \<lparr>r_ID = 0, r_Name = p_Name (cr_ForProvider cr), r_Public = False,
      r_Project = p_Project (cr_ForProvider cr),
      r_Description = p_Description (cr_ForProvider cr)\<rparr>"

definition repoToUpdate :: "RepositoryCR \<Rightarrow> Repository" where
  "repoToUpdate cr =
     \<lparr>r_ID = 0, r_Name = p_Name (cr_ForProvider cr), r_Public = False,
      r_Project = p_Project (cr_ForProvider cr),
      r_Description = p_Description (cr_ForProvider cr)\<rparr>"

text \<open>The \<open>bitbucket.Group\<close> built from a desired grant.\<close>

definition toGroup :: "AdGroup \<Rightarrow> Group" where
  "toGroup g = \<lparr>g_Name = ad_Name g, g_Permission = ad_Permission g\<rparr>"

text \<open>
  Each operation returns what the Go method returns, the managed resource as the
  method leaves it, and the state of the world. Log output is not modelled.
\<close>

definition Observe ::
  "'s RepositoryService \<Rightarrow> Managed \<Rightarrow> 's \<Rightarrow> (ExternalObservation \<times> error option) \<times> Managed \<times> 's"
where
  "Observe c mg s =
     (case mg of
        OtherMG \<Rightarrow>
          ((\<lparr>ResourceExists = False, ResourceUpToDate = False, obs_ConnectionDetails = None\<rparr>,
            Some (New errNotRepository)), mg, s)
      | RepositoryMG cr \<Rightarrow>
          (case svc_Get c (repoRef cr) s of
                (Inl err, s1) \<Rightarrow>
                  if errors_Is err ErrNotFound
                  then ((\<lparr>ResourceExists = False, ResourceUpToDate = False,
                           obs_ConnectionDetails = None\<rparr>, None), mg, s1)
                  else ((\<lparr>ResourceExists = False, ResourceUpToDate = False,
                           obs_ConnectionDetails = None\<rparr>,
                         Some (Wrap ''error fetching Bitbucket repository'' err)), mg, s1)
              | (Inr repository, s1) \<Rightarrow>
                  (let cr1 = cr\<lparr>cr_Ready := Some Available,
                                 cr_AtProvider_ID := r_ID repository\<rparr>
                   in if r_Description repository \<noteq> p_Description (cr_ForProvider cr1)
                      then ((\<lparr>ResourceExists = True, ResourceUpToDate = False,
                               obs_ConnectionDetails = None\<rparr>, None), RepositoryMG cr1, s1)
                      else (case svc_GetGroups c repository s1 of
                              ((groups, err), s2) \<Rightarrow>
                                if \<not> groupsEqual (p_Groups (cr_ForProvider cr1)) groups
                                then ((\<lparr>ResourceExists = True, ResourceUpToDate = False,
                                         obs_ConnectionDetails = None\<rparr>, None),
                                      RepositoryMG cr1, s2)
                                else ((\<lparr>ResourceExists = True, ResourceUpToDate = True,
                                         obs_ConnectionDetails = Some []\<rparr>, None),
                                      RepositoryMG cr1, s2)))))"

text \<open>The loop of \<open>Create\<close> over the desired grants: the first error ends it.\<close>

fun Create_groups ::
  "'s RepositoryService \<Rightarrow> Repository \<Rightarrow> AdGroup list \<Rightarrow> 's \<Rightarrow> error option \<times> 's"
where
  "Create_groups c repository [] s = (None, s)"
| "Create_groups c repository (g # gs) s =
     (case svc_AddGroup c repository (toGroup g) s of
        (Some err, s1) \<Rightarrow> (Some err, s1)
      | (None, s1) \<Rightarrow> Create_groups c repository gs s1)"

definition Create ::
  "'s RepositoryService \<Rightarrow> Managed \<Rightarrow> 's \<Rightarrow> (ExternalCreation \<times> error option) \<times> Managed \<times> 's"
where
  "Create c mg s =
     (case mg of
        OtherMG \<Rightarrow>
          ((\<lparr>creation_ConnectionDetails = None\<rparr>, Some (New errNotRepository)), mg, s)
      | RepositoryMG cr \<Rightarrow>
          (let cr1 = cr\<lparr>cr_Ready := Some Creating\<rparr>
           in case svc_Create c (repoToCreate cr1) s of
                (Inl err, s1) \<Rightarrow>
                  ((\<lparr>creation_ConnectionDetails = None\<rparr>, Some err), RepositoryMG cr1, s1)
              | (Inr repository, s1) \<Rightarrow>
                  (case Create_groups c repository (elems (p_Groups (cr_ForProvider cr1))) s1 of
                     (Some err, s2) \<Rightarrow>
                       ((\<lparr>creation_ConnectionDetails = None\<rparr>, Some err), RepositoryMG cr1, s2)
                   | (None, s2) \<Rightarrow>
                       ((\<lparr>creation_ConnectionDetails = Some []\<rparr>, None),
                        RepositoryMG (cr1\<lparr>cr_ExternalName := Some (r_Name repository)\<rparr>),
                        s2))))"

text \<open>The first loop of \<open>Update\<close>: one \<open>AddGroup\<close> per desired grant.\<close>

fun Update_groups ::
  "'s RepositoryService \<Rightarrow> Repository \<Rightarrow> AdGroup list \<Rightarrow> 's \<Rightarrow> error option \<times> 's"
where
  "Update_groups c repo [] s = (None, s)"
| "Update_groups c repo (g # gs) s =
     (case svc_AddGroup c repo (toGroup g) s of
        (Some err, s1) \<Rightarrow> (Some err, s1)
      | (None, s1) \<Rightarrow> Update_groups c repo gs s1)"

text \<open>The inner loop of the second loop: is the name of the remote grant desired?\<close>

fun Update_found :: "Group \<Rightarrow> AdGroup list \<Rightarrow> bool" where
  "Update_found grp [] = False"
| "Update_found grp (crGroup # crGroups) =
     (if g_Name grp = ad_Name crGroup then True else Update_found grp crGroups)"

text \<open>The second loop of \<open>Update\<close>: revoke the remote grants that are not found.\<close>

fun Update_prune ::
  "'s RepositoryService \<Rightarrow> Repository \<Rightarrow> AdGroup list \<Rightarrow> Group list \<Rightarrow> 's \<Rightarrow> error option \<times> 's"
where
  "Update_prune c repo crGroups [] s = (None, s)"
| "Update_prune c repo crGroups (grp # groups) s =
     (if \<not> Update_found grp crGroups
      then (case svc_RevokeGroup c repo grp s of
              (Some err, s1) \<Rightarrow> (Some err, s1)
            | (None, s1) \<Rightarrow> Update_prune c repo crGroups groups s1)
      else Update_prune c repo crGroups groups s)"

definition Update ::
  "'s RepositoryService \<Rightarrow> Managed \<Rightarrow> 's \<Rightarrow> (ExternalUpdate \<times> error option) \<times> Managed \<times> 's"
where
  "Update c mg s =
     (case mg of
        OtherMG \<Rightarrow>
          ((\<lparr>update_ConnectionDetails = None\<rparr>, Some (New errNotRepository)), mg, s)
      | RepositoryMG cr \<Rightarrow>
          (case svc_Update c (repoToUpdate cr) s of
                (Inl err, s1) \<Rightarrow> ((\<lparr>update_ConnectionDetails = None\<rparr>, Some err), mg, s1)
              | (Inr repo, s1) \<Rightarrow>
                  (case svc_GetGroups c repo s1 of
                     ((groups, Some err), s2) \<Rightarrow>
                       ((\<lparr>update_ConnectionDetails = None\<rparr>, Some err), mg, s2)
                   | ((groups, None), s2) \<Rightarrow>
                       (case Update_groups c repo (elems (p_Groups (cr_ForProvider cr))) s2 of
                          (Some err, s3) \<Rightarrow>
                            ((\<lparr>update_ConnectionDetails = None\<rparr>, Some err), mg, s3)
                        | (None, s3) \<Rightarrow>
                            (case Update_prune c repo (elems (p_Groups (cr_ForProvider cr)))
                                    (elems groups) s3 of
                               (Some err, s4) \<Rightarrow>
                                 ((\<lparr>update_ConnectionDetails = None\<rparr>, Some err), mg, s4)
                             | (None, s4) \<Rightarrow>
                                 ((\<lparr>update_ConnectionDetails = Some []\<rparr>, None), mg, s4))))))"

definition Delete ::
  "'s RepositoryService \<Rightarrow> Managed \<Rightarrow> 's \<Rightarrow> error option \<times> Managed \<times> 's"
where
  "Delete c mg s =
     (case mg of
        OtherMG \<Rightarrow> (Some (New errNotRepository), mg, s)
      | RepositoryMG cr \<Rightarrow>
          (let cr1 = cr\<lparr>cr_Ready := Some Deleting\<rparr>
           in case svc_Delete c (repoRef cr1) s of
                (err, s1) \<Rightarrow> (err, RepositoryMG cr1, s1)))"

section \<open>Recording the calls made on a service\<close>

text \<open>
  To state in which order an operation calls the service, a service is wrapped so
  that every call is appended to a log, with the error it returned, before its result
  is passed on. The wrapped service answers as the service it wraps.
\<close>

datatype call =
    CallGet Repository
  | CallCreate Repository
  | CallUpdate Repository
  | CallDelete Repository
  | CallGetGroups Repository
  | CallAddGroup Repository Group
  | CallRevokeGroup Repository Group

type_synonym calls = "(call \<times> error option) list"

definition err_of :: "error + 'a \<Rightarrow> error option" where
  "err_of r = (case r of Inl err \<Rightarrow> Some err | Inr v \<Rightarrow> None)"

definition recording :: "'s RepositoryService \<Rightarrow> (calls \<times> 's) RepositoryService" where
  "recording c =
     \<lparr>svc_Get = (\<lambda>r (tr, s). case svc_Get c r s of
                    (res, s1) \<Rightarrow> (res, (tr @ [(CallGet r, err_of res)], s1))),
      svc_Create = (\<lambda>r (tr, s). case svc_Create c r s of
                    (res, s1) \<Rightarrow> (res, (tr @ [(CallCreate r, err_of res)], s1))),
      svc_Update = (\<lambda>r (tr, s). case svc_Update c r s of
                    (res, s1) \<Rightarrow> (res, (tr @ [(CallUpdate r, err_of res)], s1))),
      svc_Delete = (\<lambda>r (tr, s). case svc_Delete c r s of
                    (err, s1) \<Rightarrow> (err, (tr @ [(CallDelete r, err)], s1))),
      svc_GetGroups = (\<lambda>r (tr, s). case svc_GetGroups c r s of
                    (res, s1) \<Rightarrow> (res, (tr @ [(CallGetGroups r, snd res)], s1))),
      svc_AddGroup = (\<lambda>r g (tr, s). case svc_AddGroup c r g s of
                    (err, s1) \<Rightarrow> (err, (tr @ [(CallAddGroup r g, err)], s1))),
      svc_RevokeGroup = (\<lambda>r g (tr, s). case svc_RevokeGroup c r g s of
                    (err, s1) \<Rightarrow> (err, (tr @ [(CallRevokeGroup r g, err)], s1)))\<rparr>"

section \<open>The transport client\<close>

text \<open>An \<open>http.Request\<close> as the client builds it; a nil body is \<open>None\<close>.\<close>

record Request =
  req_Method :: string
  req_URL :: string
  req_Body :: "string option"
  req_Header :: "(string \<times> string) list"

text \<open>
  An \<open>http.Response\<close> as \<open>handleResponse\<close> reads it: the status code, what
  \<open>io.ReadAll(res.Body)\<close> returns, and \<open>res.Request.URL\<close>.
\<close>

record Response =
  res_StatusCode :: int
  res_Body :: "error + string"
  res_Request_URL :: string

text \<open>
  The standard library functions the client calls are parameters of the model:
  \<open>url_Parse base path\<close> is \<open>c.baseURL.Parse(path)\<close> followed by \<open>u.String()\<close>,
  \<open>http_NewRequest_err\<close> is the error of \<open>http.NewRequest\<close>, \<open>json_Encode\<close> is
  \<open>json.NewEncoder(buf).Encode(body)\<close>.
\<close>

record library =
  url_Parse :: "string \<Rightarrow> string \<Rightarrow> error + string"
  http_NewRequest_err :: "string \<Rightarrow> string \<Rightarrow> error option"
  json_Encode :: "Repository \<Rightarrow> error + string"

text \<open>
  The \<open>Client\<close>: \<open>client_Do\<close> is \<open>c.client.Do\<close>, the exchange with the server,
  which may fail and changes the world \<open>'w\<close>.
\<close>

record 'w Client =
  client_Do :: "Request \<Rightarrow> 'w \<Rightarrow> (error + Response) \<times> 'w"
  headers :: "(string \<times> string) list"
  baseURL :: string

definition jsonMediaType :: string where
  "jsonMediaType = ''application/json''"

text \<open>\<open>req.Header.Set(k, v)\<close>, for the canonical keys the client uses.\<close>

definition Header_Set :: "string \<Rightarrow> string \<Rightarrow> (string \<times> string) list \<Rightarrow> (string \<times> string) list" where
  "Header_Set k v h = (k, v) # filter (\<lambda>kv. fst kv \<noteq> k) h"

definition http_NewRequest :: "library \<Rightarrow> string \<Rightarrow> string \<Rightarrow> string option \<Rightarrow> error + Request" where
  "http_NewRequest L method u body =
     (case http_NewRequest_err L method u of
        Some err \<Rightarrow> Inl err
      | None \<Rightarrow> Inr \<lparr>req_Method = method, req_URL = u, req_Body = body, req_Header = []\<rparr>)"

text \<open>The tail of \<open>newRequest\<close>: the Accept header, then the header overrides.\<close>

definition newRequest_headers :: "'w Client \<Rightarrow> Request \<Rightarrow> Request" where
  "newRequest_headers c req =
     req\<lparr>req_Header :=
           fold (\<lambda>kv h. Header_Set (fst kv) (snd kv) h) (headers c)
             (Header_Set ''Accept'' jsonMediaType (req_Header req))\<rparr>"

definition newRequest ::
  "library \<Rightarrow> 'w Client \<Rightarrow> string \<Rightarrow> string \<Rightarrow> Repository option \<Rightarrow> error + Request"
where
  "newRequest L c method path body =
     (case url_Parse L (baseURL c) path of
        Inl err \<Rightarrow> Inl err
      | Inr u \<Rightarrow>
          if method = ''GET''
          then (case http_NewRequest L method u None of
                  Inl err \<Rightarrow> Inl err
                | Inr req \<Rightarrow> Inr (newRequest_headers c req))
          else (case (case body of
                        None \<Rightarrow> Inr ''''
                      | Some b \<Rightarrow> json_Encode L b) of
                  Inl err \<Rightarrow> Inl err
                | Inr buf \<Rightarrow>
                    (case http_NewRequest L method u (Some buf) of
                       Inl err \<Rightarrow> Inl err
                     | Inr req \<Rightarrow>
                         Inr (newRequest_headers c
                               (req\<lparr>req_Header :=
                                      Header_Set ''Content-Type'' jsonMediaType (req_Header req)\<rparr>)))))"

text \<open>
  \<open>handleResponse\<close>. The target \<open>v\<close> is a pointer or nil: the model takes the value
  it points to (\<open>None\<close> for nil) and returns it as the call leaves it.
  \<open>unmarshal\<close> is \<open>json.Unmarshal\<close> for the type of the target: from the body and the
  target it gives the error and the target as written.
\<close>

definition handleResponse ::
  "(string \<Rightarrow> 'v \<Rightarrow> error option \<times> 'v) \<Rightarrow> Response \<Rightarrow> 'v option \<Rightarrow> error option \<times> 'v option"
where
  "handleResponse unmarshal res v =
     (case res_Body res of
        Inl err \<Rightarrow> (Some err, v)
      | Inr out \<Rightarrow>
          if res_StatusCode res = 404 then (Some ErrNotFound, v)
          else if res_StatusCode res = 401 then (Some ErrPermission, v)
          else if res_StatusCode res = 409 then (Some ErrConflict, v)
          else if res_StatusCode res \<ge> 400
          then (Some (StatusError (res_Request_URL res) (res_StatusCode res)), v)
          else (case v of
                  None \<Rightarrow> (None, v)
                | Some t \<Rightarrow>
                    if res_StatusCode res = 204 then (None, v)
                    else (case unmarshal out t of
                            (Some err, t1) \<Rightarrow>
                              if errors_As_SyntaxError err
                              then (Some ErrResponseMalformed, Some t1)
                              else (Some err, Some t1)
                          | (None, t1) \<Rightarrow> (None, Some t1))))"

definition do ::
  "(string \<Rightarrow> 'v \<Rightarrow> error option \<times> 'v) \<Rightarrow> 'w Client \<Rightarrow> Request \<Rightarrow> 'v option \<Rightarrow> 'w
     \<Rightarrow> (error option \<times> 'v option) \<times> 'w"
where
  "do unmarshal c req v w =
     (case client_Do c req w of
        (Inl err, w1) \<Rightarrow> ((Some err, v), w1)
      | (Inr res, w1) \<Rightarrow> (handleResponse unmarshal res v, w1))"

text \<open>A call with a nil target decodes nothing; its decoder is never run.\<close>

definition no_target :: "string \<Rightarrow> unit \<Rightarrow> error option \<times> unit" where
  "no_target out t = (None, t)"

section \<open>The repository service over the transport client\<close>

record repositoryJson =
  j_ID :: int
  j_Name :: string
  j_Project_Key :: string
  j_Description :: string

definition toRepository :: "repositoryJson \<Rightarrow> Repository" where
  "toRepository r =
     \<lparr>r_ID = j_ID r, r_Name = j_Name r, r_Public = False, r_Project = j_Project_Key r,
      r_Description = j_Description r\<rparr>"

text \<open>The zero value of a local \<open>var repo repositoryJson\<close>.\<close>

definition repositoryJson_zero :: repositoryJson where
  "repositoryJson_zero = \<lparr>j_ID = 0, j_Name = '''', j_Project_Key = '''', j_Description = ''''\<rparr>"

text \<open>The anonymous struct \<open>GetGroups\<close> decodes into: a "values" list of entries.\<close>

record GroupEntry =
  e_Group_Name :: string
  e_Permission :: string

record GroupsResponse =
  Values :: "GroupEntry slice"

text \<open>The decoders of the two targets, parameters as the library is.\<close>

record decoders =
  json_Unmarshal_repositoryJson :: "string \<Rightarrow> repositoryJson \<Rightarrow> error option \<times> repositoryJson"
  json_Unmarshal_GroupsResponse :: "string \<Rightarrow> GroupsResponse \<Rightarrow> error option \<times> GroupsResponse"

text \<open>The value of a local variable after a call that was given its address.\<close>

definition deref :: "'v \<Rightarrow> 'v option \<Rightarrow> 'v" where
  "deref zero v = (case v of None \<Rightarrow> zero | Some t \<Rightarrow> t)"

definition repo_path :: "Repository \<Rightarrow> string" where
  "repo_path repository = ''projects/'' @ r_Project repository @ ''/repos/'' @ r_Name repository"

definition repositoryService_Get ::
  "library \<Rightarrow> decoders \<Rightarrow> 'w Client \<Rightarrow> Repository \<Rightarrow> 'w \<Rightarrow> (error + Repository) \<times> 'w"
where
  "repositoryService_Get L D c repository w =
     (case newRequest L c ''GET'' (repo_path repository) None of
        Inl err \<Rightarrow> (Inl (Wrap ''error creating request for getting repository'' err), w)
      | Inr req \<Rightarrow>
          (case do (json_Unmarshal_repositoryJson D) c req (Some repositoryJson_zero) w of
             ((Some err, repo), w1) \<Rightarrow> (Inl (Wrap ''error fetching repository'' err), w1)
           | ((None, repo), w1) \<Rightarrow> (Inr (toRepository (deref repositoryJson_zero repo)), w1)))"

definition repositoryService_Create ::
  "library \<Rightarrow> decoders \<Rightarrow> 'w Client \<Rightarrow> Repository \<Rightarrow> 'w \<Rightarrow> (error + Repository) \<times> 'w"
where
  "repositoryService_Create L D c repository w =
     (case newRequest L c ''POST'' (''projects/'' @ r_Project repository @ ''/repos'')
             (Some repository) of
        Inl err \<Rightarrow> (Inl (Wrap ''error creating request for creating repository'' err), w)
      | Inr req \<Rightarrow>
          (case do (json_Unmarshal_repositoryJson D) c req (Some repositoryJson_zero) w of
             ((Some err, repo), w1) \<Rightarrow> (Inl (Wrap ''error creating repository'' err), w1)
           | ((None, repo), w1) \<Rightarrow> (Inr (toRepository (deref repositoryJson_zero repo)), w1)))"

definition repositoryService_Update ::
  "library \<Rightarrow> decoders \<Rightarrow> 'w Client \<Rightarrow> Repository \<Rightarrow> 'w \<Rightarrow> (error + Repository) \<times> 'w"
where
  "repositoryService_Update L D c repository w =
     (case newRequest L c ''PUT'' (repo_path repository) (Some repository) of
        Inl err \<Rightarrow> (Inl (Wrap ''error updating request for creating repository'' err), w)
      | Inr req \<Rightarrow>
          (case do (json_Unmarshal_repositoryJson D) c req (Some repositoryJson_zero) w of
             ((Some err, repo), w1) \<Rightarrow> (Inl (Wrap ''error updating repository'' err), w1)
           | ((None, repo), w1) \<Rightarrow> (Inr (toRepository (deref repositoryJson_zero repo)), w1)))"

text \<open>\<open>Delete\<close> as the service with the group operations has it.\<close>

definition repositoryService_Delete ::
  "library \<Rightarrow> 'w Client \<Rightarrow> Repository \<Rightarrow> 'w \<Rightarrow> error option \<times> 'w"
where
  "repositoryService_Delete L c repository w =
     (case newRequest L c ''DELETE'' (repo_path repository) None of
        Inl err \<Rightarrow> (Some (Wrap ''error creating request for deleting repository'' err), w)
      | Inr req \<Rightarrow>
          (case do no_target c req None w of
             ((Some err, v), w1) \<Rightarrow> (Some (Wrap ''error deleting repository'' err), w1)
           | ((None, v), w1) \<Rightarrow> (None, w1)))"

text \<open>\<open>Delete\<close> as \<open>internal/bitbucket/repository.go\<close> has it.\<close>

definition internal_repositoryService_Delete ::
  "library \<Rightarrow> 'w Client \<Rightarrow> Repository \<Rightarrow> 'w \<Rightarrow> error option \<times> 'w"
where
  "internal_repositoryService_Delete L c repository w =
     (case newRequest L c ''PUT'' (repo_path repository) None of
        Inl err \<Rightarrow> (Some (Wrap ''error creating request for deleting repository'' err), w)
      | Inr req \<Rightarrow>
          (case do no_target c req None w of
             ((Some err, v), w1) \<Rightarrow> (Some (Wrap ''error deleting repository'' err), w1)
           | ((None, v), w1) \<Rightarrow> (None, w1)))"

text \<open>The loop of \<open>GetGroups\<close>: each entry is appended to \<open>groups\<close>.\<close>

fun GetGroups_append :: "Group list \<Rightarrow> GroupEntry list \<Rightarrow> Group list" where
  "GetGroups_append groups [] = groups"
| "GetGroups_append groups (entry # entries) =
     GetGroups_append
       (groups @ [\<lparr>g_Name = e_Group_Name entry, g_Permission = e_Permission entry\<rparr>]) entries"

definition repositoryService_GetGroups ::
  "library \<Rightarrow> decoders \<Rightarrow> 'w Client \<Rightarrow> Repository \<Rightarrow> 'w \<Rightarrow> (Group slice \<times> error option) \<times> 'w"
where
  "repositoryService_GetGroups L D c repository w =
     (let url = repo_path repository @ ''/permissions/groups''
      in case newRequest L c ''GET'' url None of
           Inl err \<Rightarrow>
             ((None, Some (Wrap ''error creating request for getting repository groups'' err)), w)
         | Inr req \<Rightarrow>
             (case do (json_Unmarshal_GroupsResponse D) c req (Some \<lparr>Values = None\<rparr>) w of
                ((Some err, response), w1) \<Rightarrow>
                  ((None, Some (Wrap ''error getting repository group'' err)), w1)
              | ((None, response), w1) \<Rightarrow>
                  ((Some (GetGroups_append []
                            (elems (Values (deref \<lparr>Values = None\<rparr> response)))), None), w1)))"

definition repositoryService_AddGroup ::
  "library \<Rightarrow> 'w Client \<Rightarrow> Repository \<Rightarrow> Group \<Rightarrow> 'w \<Rightarrow> error option \<times> 'w"
where
  "repositoryService_AddGroup L c repository grp w =
     (let url = repo_path repository @ ''/permissions/groups?name='' @ g_Name grp
                  @ ''&permission='' @ g_Permission grp
      in case newRequest L c ''PUT'' url None of
           Inl err \<Rightarrow> (Some (Wrap ''error creating request for adding repository group'' err), w)
         | Inr req \<Rightarrow>
             (case do no_target c req None w of
                ((Some err, v), w1) \<Rightarrow> (Some (Wrap ''error adding repository group'' err), w1)
              | ((None, v), w1) \<Rightarrow> (None, w1)))"

definition repositoryService_RevokeGroup ::
  "library \<Rightarrow> 'w Client \<Rightarrow> Repository \<Rightarrow> Group \<Rightarrow> 'w \<Rightarrow> error option \<times> 'w"
where
  "repositoryService_RevokeGroup L c repository grp w =
     (let url = repo_path repository @ ''/permissions/groups?name='' @ g_Name grp
      in case newRequest L c ''DELETE'' url None of
           Inl err \<Rightarrow> (Some (Wrap ''error creating request for revoking repository group'' err), w)
         | Inr req \<Rightarrow>
             (case do no_target c req None w of
                ((Some err, v), w1) \<Rightarrow> (Some (Wrap ''error revoking repository group'' err), w1)
              | ((None, v), w1) \<Rightarrow> (None, w1)))"

text \<open>The value \<open>&repositoryService{client: client}\<close> as a \<open>RepositoryService\<close>.\<close>

definition repositoryService :: "library \<Rightarrow> decoders \<Rightarrow> 'w Client \<Rightarrow> 'w RepositoryService" where
  "repositoryService L D c =
     \<lparr>svc_Get = repositoryService_Get L D c,
      svc_Create = repositoryService_Create L D c,
      svc_Update = repositoryService_Update L D c,
      svc_Delete = repositoryService_Delete L c,
      svc_GetGroups = repositoryService_GetGroups L D c,
      svc_AddGroup = repositoryService_AddGroup L c,
      svc_RevokeGroup = repositoryService_RevokeGroup L c\<rparr>"

section \<open>Running a plan of calls\<close>

text \<open>
  What "the calls are made in this order, and the first failing call aborts the
  rest" says of a log: the log follows the plan call by call; a call that returned an
  error is the last one of the log and its error is the one returned; when no call
  failed every call of the plan was made and no error is returned.
\<close>

fun runs_until_first_failure :: "call list \<Rightarrow> calls \<Rightarrow> error option \<Rightarrow> bool" where
  "runs_until_first_failure [] log err = (log = [] \<and> err = None)"
| "runs_until_first_failure (c # plan) [] err = False"
| "runs_until_first_failure (c # plan) ((c1, Some e) # log) err =
     (c1 = c \<and> log = [] \<and> err = Some e)"
| "runs_until_first_failure (c # plan) ((c1, None) # log) err =
     (c1 = c \<and> runs_until_first_failure plan log err)"

text \<open>The calls \<open>Create\<close> is to make once the repository was created.\<close>

definition Create_plan :: "RepositoryCR \<Rightarrow> Repository \<Rightarrow> call list" where
  "Create_plan cr repository =
     CallCreate (repoToCreate cr)
       # map (\<lambda>g. CallAddGroup repository (toGroup g)) (elems (p_Groups (cr_ForProvider cr)))"

text \<open>
  The calls \<open>Update\<close> is to make once the repository was updated and the remote
  grants were listed: the update, the listing, one upsert per desired grant, then one
  revocation per remote grant whose name no desired grant has.
\<close>

definition Update_plan :: "RepositoryCR \<Rightarrow> Repository \<Rightarrow> Group list \<Rightarrow> call list" where
  "Update_plan cr repo groups =
     CallUpdate (repoToUpdate cr) # CallGetGroups repo
       # map (\<lambda>g. CallAddGroup repo (toGroup g)) (elems (p_Groups (cr_ForProvider cr)))
       @ map (CallRevokeGroup repo)
           (filter (\<lambda>g. g_Name g \<notin> set (map ad_Name (elems (p_Groups (cr_ForProvider cr)))))
              groups)"

text \<open>Is the call a revocation of a grant with one of these names?\<close>

fun revokes_one_of :: "string list \<Rightarrow> call \<Rightarrow> bool" where
  "revokes_one_of names (CallRevokeGroup r g) = (g_Name g \<in> set names)"
| "revokes_one_of names c = False"

text \<open>Does the call undo something: a deletion or a revocation?\<close>

fun undoes :: "call \<Rightarrow> bool" where
  "undoes (CallDelete r) = True"
| "undoes (CallRevokeGroup r g) = True"
| "undoes c = False"

text \<open>The parts of what an operation returns.\<close>

definition returned :: "('a \<times> error option) \<times> Managed \<times> 's \<Rightarrow> 'a" where
  "returned R = fst (fst R)"

definition returned_error :: "('a \<times> error option) \<times> Managed \<times> 's \<Rightarrow> error option" where
  "returned_error R = snd (fst R)"

definition resource_after :: "'r \<times> Managed \<times> 's \<Rightarrow> Managed" where
  "resource_after R = fst (snd R)"

definition calls_made :: "'r \<times> Managed \<times> calls \<times> 's \<Rightarrow> calls" where
  "calls_made R = fst (snd (snd R))"

section \<open>Test doubles\<close>

text \<open>
  An in-memory server to run the controller on concrete inputs: it holds at most one
  repository and its grants, and fails the calls listed in \<open>fake_failing\<close>.
\<close>

record fake =
  fake_repo :: "Repository option"
  fake_groups :: "Group list"
  fake_failing :: "(call \<times> error) list"

definition fake_upsert :: "Group \<Rightarrow> Group list \<Rightarrow> Group list" where
  "fake_upsert g gs =
     (if g_Name g \<in> set (map g_Name gs)
      then map (\<lambda>x. if g_Name x = g_Name g then g else x) gs
      else gs @ [g])"

definition fakeService :: "fake RepositoryService" where
  "fakeService =
     \<lparr>svc_Get = (\<lambda>r s. case map_of (fake_failing s) (CallGet r) of
                    Some e \<Rightarrow> (Inl e, s)
                  | None \<Rightarrow> (case fake_repo s of
                               None \<Rightarrow> (Inl (Wrap ''error fetching repository'' ErrNotFound), s)
                             | Some x \<Rightarrow> (Inr x, s))),
      svc_Create = (\<lambda>r s. case map_of (fake_failing s) (CallCreate r) of
                    Some e \<Rightarrow> (Inl e, s)
                  | None \<Rightarrow> (Inr (r\<lparr>r_ID := 1\<rparr>), s\<lparr>fake_repo := Some (r\<lparr>r_ID := 1\<rparr>)\<rparr>)),
      svc_Update = (\<lambda>r s. case map_of (fake_failing s) (CallUpdate r) of
                    Some e \<Rightarrow> (Inl e, s)
                  | None \<Rightarrow> (case fake_repo s of
                               None \<Rightarrow> (Inl (Wrap ''error updating repository'' ErrNotFound), s)
                             | Some x \<Rightarrow>
                                 (Inr (x\<lparr>r_Description := r_Description r\<rparr>),
                                  s\<lparr>fake_repo := Some (x\<lparr>r_Description := r_Description r\<rparr>)\<rparr>))),
      svc_Delete = (\<lambda>r s. case map_of (fake_failing s) (CallDelete r) of
                    Some e \<Rightarrow> (Some e, s)
                  | None \<Rightarrow> (None, s\<lparr>fake_repo := None, fake_groups := []\<rparr>)),
      svc_GetGroups = (\<lambda>r s. case map_of (fake_failing s) (CallGetGroups r) of
                    Some e \<Rightarrow> ((None, Some e), s)
                  | None \<Rightarrow> ((Some (fake_groups s), None), s)),
      svc_AddGroup = (\<lambda>r g s. case map_of (fake_failing s) (CallAddGroup r g) of
                    Some e \<Rightarrow> (Some e, s)
                  | None \<Rightarrow> (None, s\<lparr>fake_groups := fake_upsert g (fake_groups s)\<rparr>)),
      svc_RevokeGroup = (\<lambda>r g s. case map_of (fake_failing s) (CallRevokeGroup r g) of
                    Some e \<Rightarrow> (Some e, s)
                  | None \<Rightarrow>
                      (None, s\<lparr>fake_groups := filter (\<lambda>x. g_Name x \<noteq> g_Name g) (fake_groups s)\<rparr>))\<rparr>"

text \<open>
  A library that resolves a path by appending it to the base and never fails, and a
  client whose server answers each request from a table of (method, URL, response),
  with 404 for a request that is not in the table. The world is the list of the
  requests sent.
\<close>

definition fakeLibrary :: library where
  "fakeLibrary =
     \<lparr>url_Parse = (\<lambda>base path. Inr (base @ path)),
      http_NewRequest_err = (\<lambda>method u. None),
      json_Encode = (\<lambda>r. Inr (''{\"name\":\"'' @ r_Name r @ ''\"}''))\<rparr>"

fun fake_route :: "(string \<times> string \<times> int \<times> string) list \<Rightarrow> Request \<Rightarrow> Response" where
  "fake_route [] req =
     \<lparr>res_StatusCode = 404, res_Body = Inr '''', res_Request_URL = req_URL req\<rparr>"
| "fake_route ((m, u, code, body) # routes) req =
     (if req_Method req = m \<and> req_URL req = u
      then \<lparr>res_StatusCode = code, res_Body = Inr body, res_Request_URL = req_URL req\<rparr>
      else fake_route routes req)"

definition fakeClient :: "(string \<times> string \<times> int \<times> string) list \<Rightarrow> (Request list) Client" where
  "fakeClient routes =
     \<lparr>client_Do = (\<lambda>req w. (Inr (fake_route routes req), w @ [req])),
      headers = [(''Authorization'', ''Bearer token'')],
      baseURL = ''https://bitbucket.example/rest/api/1.0/''\<rparr>"

text \<open>
  Decoders that accept exactly one body each and report a syntax error on any other.
\<close>

definition fakeDecoders :: "string \<Rightarrow> repositoryJson \<Rightarrow> string \<Rightarrow> GroupsResponse \<Rightarrow> decoders" where
  "fakeDecoders repoBody repo groupsBody groups =
     \<lparr>json_Unmarshal_repositoryJson =
        (\<lambda>out t. if out = repoBody then (None, repo)
                  else (Some (JsonSyntaxError ''invalid character''), t)),
      json_Unmarshal_GroupsResponse =
        (\<lambda>out t. if out = groupsBody then (None, groups)
                  else (Some (JsonSyntaxError ''invalid character''), t))\<rparr>"

text \<open>
  The desired state of the scenario of the specification: the repository \<open>svc\<close> of
  the project \<open>CORE\<close> with the description \<open>x\<close> and one grant.
\<close>

definition example_cr :: RepositoryCR where
  "example_cr =
     \<lparr>cr_ForProvider =
        \<lparr>p_Name = ''svc'', p_Project = ''CORE'', p_Public = False, p_Description = ''x'',
         p_Groups = Some [\<lparr>ad_Name = ''devs'', ad_Permission = ''write''\<rparr>]\<rparr>,
      cr_AtProvider_ID = 0, cr_Ready = None, cr_ExternalName = None\<rparr>"

text \<open>
  The scenario of the specification for \<open>Update\<close>: the desired grants are
  \<open>A:admin\<close> and \<open>C:read\<close>, and the server holds the repository with the grants
  \<open>A:read\<close> and \<open>B:write\<close>. \<open>update_server failing\<close> fails the calls listed.
\<close>

definition update_cr :: RepositoryCR where
  "update_cr =
     \<lparr>cr_ForProvider =
        \<lparr>p_Name = ''svc'', p_Project = ''CORE'', p_Public = False, p_Description = ''x'',
         p_Groups = Some [\<lparr>ad_Name = ''A'', ad_Permission = ''admin''\<rparr>,
                          \<lparr>ad_Name = ''C'', ad_Permission = ''read''\<rparr>]\<rparr>,
      cr_AtProvider_ID = 1, cr_Ready = Some Available, cr_ExternalName = Some ''svc''\<rparr>"

definition update_repo :: "string \<Rightarrow> Repository" where
  "update_repo description =
     \<lparr>r_ID = 1, r_Name = ''svc'', r_Public = False, r_Project = ''CORE'',
      r_Description = description\<rparr>"

definition update_server :: "(call \<times> error) list \<Rightarrow> fake" where
  "update_server failing =
     \<lparr>fake_repo = Some (update_repo ''old''),
      fake_groups = [\<lparr>g_Name = ''A'', g_Permission = ''read''\<rparr>,
                     \<lparr>g_Name = ''B'', g_Permission = ''write''\<rparr>],
      fake_failing = failing\<rparr>"

text \<open>A server without any repository.\<close>

definition empty_server :: "(call \<times> error) list \<Rightarrow> fake" where
  "empty_server failing = \<lparr>fake_repo = None, fake_groups = [], fake_failing = failing\<rparr>"

text \<open>A desired state with its visibility flag replaced, and the same for a resource.\<close>

definition set_Public :: "bool \<Rightarrow> RepositoryCR \<Rightarrow> RepositoryCR" where
  "set_Public b cr = cr\<lparr>cr_ForProvider := (cr_ForProvider cr)\<lparr>p_Public := b\<rparr>\<rparr>"

definition Managed_set_Public :: "bool \<Rightarrow> Managed \<Rightarrow> Managed" where
  "Managed_set_Public b mg =
     (case mg of RepositoryMG cr \<Rightarrow> RepositoryMG (set_Public b cr) | OtherMG \<Rightarrow> OtherMG)"

section \<open>The recording service and the test doubles, unfolded\<close>

lemma recording_Get:
  "svc_Get (recording c) r (tr, s) =
     (case svc_Get c r s of (res, s1) \<Rightarrow> (res, (tr @ [(CallGet r, err_of res)], s1)))"
  by (simp add: recording_def)

lemma recording_Create:
  "svc_Create (recording c) r (tr, s) =
     (case svc_Create c r s of (res, s1) \<Rightarrow> (res, (tr @ [(CallCreate r, err_of res)], s1)))"
  by (simp add: recording_def)

lemma recording_Update:
  "svc_Update (recording c) r (tr, s) =
     (case svc_Update c r s of (res, s1) \<Rightarrow> (res, (tr @ [(CallUpdate r, err_of res)], s1)))"
  by (simp add: recording_def)

lemma recording_Delete:
  "svc_Delete (recording c) r (tr, s) =
     (case svc_Delete c r s of (err, s1) \<Rightarrow> (err, (tr @ [(CallDelete r, err)], s1)))"
  by (simp add: recording_def)

lemma recording_GetGroups:
  "svc_GetGroups (recording c) r (tr, s) =
     (case svc_GetGroups c r s of (res, s1) \<Rightarrow> (res, (tr @ [(CallGetGroups r, snd res)], s1)))"
  by (simp add: recording_def)

lemma recording_AddGroup:
  "svc_AddGroup (recording c) r g (tr, s) =
     (case svc_AddGroup c r g s of (err, s1) \<Rightarrow> (err, (tr @ [(CallAddGroup r g, err)], s1)))"
  by (simp add: recording_def)

lemma recording_RevokeGroup:
  "svc_RevokeGroup (recording c) r g (tr, s) =
     (case svc_RevokeGroup c r g s of (err, s1) \<Rightarrow> (err, (tr @ [(CallRevokeGroup r g, err)], s1)))"
  by (simp add: recording_def)

lemmas recording_simps =
  recording_Get recording_Create recording_Update recording_Delete
  recording_GetGroups recording_AddGroup recording_RevokeGroup

lemmas fake_http_defs =
  repositoryService_def repositoryService_Get_def repositoryService_GetGroups_def
  newRequest_def fakeLibrary_def fakeClient_def http_NewRequest_def newRequest_headers_def
  Header_Set_def jsonMediaType_def do_def handleResponse_def repo_path_def repoRef_def
  example_cr_def fakeDecoders_def deref_def toRepository_def repositoryJson_zero_def Let_def

lemmas fake_call_defs =
  repositoryService_Delete_def internal_repositoryService_Delete_def
  repositoryService_AddGroup_def repositoryService_RevokeGroup_def no_target_def
  fake_http_defs

section \<open>The loops of the controller on a recording service\<close>

lemma runs_append_ok:
  "runs_until_first_failure p1 l1 None \<Longrightarrow> runs_until_first_failure p2 l2 err
     \<Longrightarrow> runs_until_first_failure (p1 @ p2) (l1 @ l2) err"
  by (induction p1 l1 "None :: error option" rule: runs_until_first_failure.induct) simp_all

lemma runs_append_failed:
  "runs_until_first_failure p1 l1 (Some e) \<Longrightarrow> runs_until_first_failure (p1 @ p2) l1 (Some e)"
  by (induction p1 l1 "Some e" rule: runs_until_first_failure.induct) simp_all

lemma runs_calls_of_plan:
  "runs_until_first_failure plan log err \<Longrightarrow> map fst log = take (length log) plan"
  by (induction plan log err rule: runs_until_first_failure.induct) simp_all

lemma runs_calls_subset:
  assumes "runs_until_first_failure plan log err"
  shows "set (map fst log) \<subseteq> set plan"
proof -
  have "set (map fst log) = set (take (length log) plan)"
    using runs_calls_of_plan [OF assms] by simp
  then show ?thesis
    using set_take_subset [of "length log" plan] by simp
qed

lemma Create_groups_recording:
  "Create_groups (recording c) repo gs (tr, s) = (err, (tr1, s1)) \<Longrightarrow>
     \<exists>log. tr1 = tr @ log
       \<and> runs_until_first_failure (map (\<lambda>g. CallAddGroup repo (toGroup g)) gs) log err
       \<and> Create_groups c repo gs s = (err, s1)"
proof (induction gs arbitrary: tr s)
  case Nil
  then show ?case by simp
next
  case (Cons g gs)
  obtain e s2 where a: "svc_AddGroup c repo (toGroup g) s = (e, s2)"
    by (cases "svc_AddGroup c repo (toGroup g) s")
  show ?case
  proof (cases e)
    case None
    with a Cons.prems
    have "Create_groups (recording c) repo gs (tr @ [(CallAddGroup repo (toGroup g), None)], s2)
            = (err, (tr1, s1))"
      by (simp add: recording_AddGroup)
    from Cons.IH [OF this] obtain log where
      l: "tr1 = (tr @ [(CallAddGroup repo (toGroup g), None)]) @ log"
      and r: "runs_until_first_failure (map (\<lambda>g. CallAddGroup repo (toGroup g)) gs) log err"
      and b: "Create_groups c repo gs s2 = (err, s1)"
      by blast
    show ?thesis
    proof (intro exI conjI)
      show "tr1 = tr @ ((CallAddGroup repo (toGroup g), None) # log)"
        using l by simp
      show "runs_until_first_failure (map (\<lambda>g. CallAddGroup repo (toGroup g)) (g # gs))
              ((CallAddGroup repo (toGroup g), None) # log) err"
        using r by simp
      show "Create_groups c repo (g # gs) s = (err, s1)"
        using a None b by simp
    qed
  next
    case (Some x)
    with a Cons.prems show ?thesis
      by (auto simp: recording_AddGroup)
  qed
qed

lemma Update_groups_eq_Create_groups: "Update_groups c repo gs s = Create_groups c repo gs s"
  by (induction gs arbitrary: s) (simp_all split: prod.splits option.splits)

lemma Update_found_iff: "Update_found grp crGroups \<longleftrightarrow> g_Name grp \<in> set (map ad_Name crGroups)"
  by (induction crGroups) auto

lemma Update_prune_recording:
  "Update_prune (recording c) repo crGroups groups (tr, s) = (err, (tr1, s1)) \<Longrightarrow>
     \<exists>log. tr1 = tr @ log
       \<and> runs_until_first_failure
            (map (CallRevokeGroup repo)
               (filter (\<lambda>g. g_Name g \<notin> set (map ad_Name crGroups)) groups)) log err
       \<and> Update_prune c repo crGroups groups s = (err, s1)"
proof (induction groups arbitrary: tr s)
  case Nil
  then show ?case by simp
next
  case (Cons g groups)
  show ?case
  proof (cases "Update_found g crGroups")
    case True
    with Cons.prems
    have "Update_prune (recording c) repo crGroups groups (tr, s) = (err, (tr1, s1))"
      by simp
    from Cons.IH [OF this] True show ?thesis
      by (simp add: Update_found_iff)
  next
    case False
    obtain e s2 where a: "svc_RevokeGroup c repo g s = (e, s2)"
      by (cases "svc_RevokeGroup c repo g s")
    show ?thesis
    proof (cases e)
      case None
      with a False Cons.prems
      have "Update_prune (recording c) repo crGroups groups
              (tr @ [(CallRevokeGroup repo g, None)], s2) = (err, (tr1, s1))"
        by (simp add: recording_RevokeGroup)
      from Cons.IH [OF this] obtain log where
        l: "tr1 = (tr @ [(CallRevokeGroup repo g, None)]) @ log"
        and r: "runs_until_first_failure
                  (map (CallRevokeGroup repo)
                     (filter (\<lambda>g. g_Name g \<notin> set (map ad_Name crGroups)) groups)) log err"
        and b: "Update_prune c repo crGroups groups s2 = (err, s1)"
        by blast
      show ?thesis
      proof (intro exI conjI)
        show "tr1 = tr @ ((CallRevokeGroup repo g, None) # log)"
          using l by simp
        show "runs_until_first_failure
                (map (CallRevokeGroup repo)
                   (filter (\<lambda>g. g_Name g \<notin> set (map ad_Name crGroups)) (g # groups)))
                ((CallRevokeGroup repo g, None) # log) err"
          using r False by (simp add: Update_found_iff)
        show "Update_prune c repo crGroups (g # groups) s = (err, s1)"
          using a None b False by simp
      qed
    next
      case (Some x)
      with a False Cons.prems show ?thesis
        by (auto simp: recording_RevokeGroup Update_found_iff)
    qed
  qed
qed

lemma repoToCreate_Ready [simp]: "repoToCreate (cr\<lparr>cr_Ready := x\<rparr>) = repoToCreate cr"
  by (simp add: repoToCreate_def)

lemma repoRef_Ready [simp]: "repoRef (cr\<lparr>cr_Ready := x\<rparr>) = repoRef cr"
  by (simp add: repoRef_def)

lemmas fake_service_defs =
  fakeService_def recording_def fake_upsert_def update_cr_def update_repo_def update_server_def
  empty_server_def example_cr_def repoToUpdate_def repoToCreate_def repoRef_def toGroup_def
  err_of_def elems_def len_def

section \<open>Properties of the grant comparison\<close>

lemma groupsEqual_found_iff:
  "groupsEqual_found a gs \<longleftrightarrow>
     (ad_Name a, ad_Permission a) \<in> set (map (\<lambda>g. (g_Name g, g_Permission g)) gs)"
  by (induction gs) auto

lemma groupsEqual_loop_iff:
  "groupsEqual_loop as gs \<longleftrightarrow>
     set (map (\<lambda>a. (ad_Name a, ad_Permission a)) as)
       \<subseteq> set (map (\<lambda>g. (g_Name g, g_Permission g)) gs)"
  by (induction as) (auto simp: groupsEqual_found_iff)

lemma groupsEqual_unfold:
  "groupsEqual crGroups groups \<longleftrightarrow>
     len crGroups = len groups \<and> desired_pairs crGroups \<subseteq> remote_pairs groups"
  by (simp add: groupsEqual_def groupsEqual_loop_iff desired_pairs_def remote_pairs_def)

lemma len_elems: "len s = length (elems s)"
  by (simp add: len_def elems_def split: option.splits)

lemma distinct_names_distinct_pairs:
  "distinct (map ad_Name as) \<Longrightarrow> distinct (map (\<lambda>a. (ad_Name a, ad_Permission a)) as)"
proof -
  assume d: "distinct (map ad_Name as)"
  have "map ad_Name as = map fst (map (\<lambda>a. (ad_Name a, ad_Permission a)) as)"
    by simp
  with d show ?thesis
    by (metis distinct_map)
qed

lemma subset_same_length_eq:
  assumes d: "distinct (map ad_Name (elems crGroups))"
    and l: "len crGroups = len groups"
    and s: "desired_pairs crGroups \<subseteq> remote_pairs groups"
  shows "remote_pairs groups = desired_pairs crGroups"
proof -
  let ?D = "map (\<lambda>a. (ad_Name a, ad_Permission a)) (elems crGroups)"
  let ?R = "map (\<lambda>g. (g_Name g, g_Permission g)) (elems groups)"
  have "card (set ?D) = length ?D"
    using distinct_names_distinct_pairs [OF d] by (rule distinct_card)
  also have "\<dots> = length ?R"
    using l by (simp add: len_elems)
  finally have "card (set ?R) \<le> card (set ?D)"
    using card_length [of ?R] by simp
  moreover have "set ?D \<subseteq> set ?R"
    using s by (simp add: desired_pairs_def remote_pairs_def)
  ultimately have "set ?D = set ?R"
    by (intro card_seteq) simp_all
  then show ?thesis
    by (simp add: desired_pairs_def remote_pairs_def)
qed

lemma groupsEqual_mset_cong:
  assumes "mset (elems crGroups') = mset (elems crGroups)"
    and "mset (elems groups') = mset (elems groups)"
  shows "groupsEqual crGroups' groups' = groupsEqual crGroups groups"
proof -
  have "length (elems crGroups') = length (elems crGroups)"
    using assms(1) by (rule mset_eq_length)
  moreover have "length (elems groups') = length (elems groups)"
    using assms(2) by (rule mset_eq_length)
  moreover have "set (elems crGroups') = set (elems crGroups)"
    using assms(1) by (rule mset_eq_setD)
  moreover have "set (elems groups') = set (elems groups)"
    using assms(2) by (rule mset_eq_setD)
  ultimately show ?thesis
    by (simp add: groupsEqual_unfold len_elems desired_pairs_def remote_pairs_def)
qed

text \<open>
  Claim C1, as amended. For a desired grant list with at most one grant per group name
  and any remote grant list, \<open>groupsEqual\<close> is true exactly when the two lists have the
  same length and the same set of (name, permission) pairs. The result does not change
  when either list is permuted, it is false when the lengths differ, and it is false
  when a group name that occurs in both lists carries different permissions.
\<close>

theorem groupsEqual_length_and_pairs:
  assumes "distinct (map ad_Name (elems crGroups))"
  shows "(groupsEqual crGroups groups \<longleftrightarrow>
            len crGroups = len groups \<and> remote_pairs groups = desired_pairs crGroups)
       \<and> (\<forall>crGroups' groups'.
            mset (elems crGroups') = mset (elems crGroups)
            \<and> mset (elems groups') = mset (elems groups)
            \<longrightarrow> groupsEqual crGroups' groups' = groupsEqual crGroups groups)
       \<and> (len crGroups \<noteq> len groups \<longrightarrow> \<not> groupsEqual crGroups groups)
       \<and> (\<forall>a \<in> set (elems crGroups). \<forall>g \<in> set (elems groups).
            ad_Name a = g_Name g \<and> ad_Permission a \<noteq> g_Permission g
            \<longrightarrow> \<not> groupsEqual crGroups groups)"
proof (intro conjI allI impI ballI)
  show "groupsEqual crGroups groups \<longleftrightarrow>
          len crGroups = len groups \<and> remote_pairs groups = desired_pairs crGroups"
    using subset_same_length_eq [OF assms] by (auto simp: groupsEqual_unfold)
next
  fix crGroups' groups'
  assume "mset (elems crGroups') = mset (elems crGroups)
            \<and> mset (elems groups') = mset (elems groups)"
  then show "groupsEqual crGroups' groups' = groupsEqual crGroups groups"
    by (intro groupsEqual_mset_cong) simp_all
next
  assume "len crGroups \<noteq> len groups"
  then show "\<not> groupsEqual crGroups groups"
    by (simp add: groupsEqual_def)
next
  fix a g
  assume a: "a \<in> set (elems crGroups)" and g: "g \<in> set (elems groups)"
    and ne: "ad_Name a = g_Name g \<and> ad_Permission a \<noteq> g_Permission g"
  show "\<not> groupsEqual crGroups groups"
  proof
    assume eq: "groupsEqual crGroups groups"
    then have "remote_pairs groups = desired_pairs crGroups"
      using subset_same_length_eq [OF assms] by (simp add: groupsEqual_unfold)
    moreover have "(g_Name g, g_Permission g) \<in> remote_pairs groups"
      using g by (auto simp: remote_pairs_def)
    ultimately obtain b where b: "b \<in> set (elems crGroups)"
      and bn: "ad_Name b = g_Name g" and bp: "ad_Permission b = g_Permission g"
      by (auto simp: desired_pairs_def)
    from assms a b have "ad_Name a = ad_Name b \<longrightarrow> a = b"
      by (auto simp: distinct_map inj_on_def)
    with ne bn bp show False by auto
  qed
qed

text \<open>The theorem of claim C1 at a remote list that permutes the desired one.\<close>

theorem groupsEqual_length_and_pairs_witness:
  "distinct (map ad_Name (elems (Some [\<lparr>ad_Name = ''A'', ad_Permission = ''read''\<rparr>,
                                      \<lparr>ad_Name = ''B'', ad_Permission = ''write''\<rparr>])))
   \<and> groupsEqual (Some [\<lparr>ad_Name = ''A'', ad_Permission = ''read''\<rparr>,
                        \<lparr>ad_Name = ''B'', ad_Permission = ''write''\<rparr>])
                  (Some [\<lparr>g_Name = ''B'', g_Permission = ''write''\<rparr>,
                        \<lparr>g_Name = ''A'', g_Permission = ''read''\<rparr>])
   \<and> remote_pairs (Some [\<lparr>g_Name = ''B'', g_Permission = ''write''\<rparr>,
                          \<lparr>g_Name = ''A'', g_Permission = ''read''\<rparr>])
       = desired_pairs (Some [\<lparr>ad_Name = ''A'', ad_Permission = ''read''\<rparr>,
                             \<lparr>ad_Name = ''B'', ad_Permission = ''write''\<rparr>])
   \<and> \<not> groupsEqual (Some [\<lparr>ad_Name = ''A'', ad_Permission = ''read''\<rparr>,
                          \<lparr>ad_Name = ''B'', ad_Permission = ''write''\<rparr>])
                    (Some [\<lparr>g_Name = ''A'', g_Permission = ''read''\<rparr>,
                          \<lparr>g_Name = ''B'', g_Permission = ''admin''\<rparr>])
   \<and> \<not> groupsEqual (Some [\<lparr>ad_Name = ''A'', ad_Permission = ''read''\<rparr>,
                          \<lparr>ad_Name = ''B'', ad_Permission = ''write''\<rparr>])
                    (Some [\<lparr>g_Name = ''A'', g_Permission = ''read''\<rparr>])"
proof -
  let ?d = "Some [\<lparr>ad_Name = ''A'', ad_Permission = ''read''\<rparr>,
                  \<lparr>ad_Name = ''B'', ad_Permission = ''write''\<rparr>]"
  let ?g = "Some [\<lparr>g_Name = ''B'', g_Permission = ''write''\<rparr>,
                  \<lparr>g_Name = ''A'', g_Permission = ''read''\<rparr>]"
  have d: "distinct (map ad_Name (elems ?d))"
    by (simp add: elems_def)
  have e: "groupsEqual ?d ?g"
    by (simp add: groupsEqual_def len_def elems_def)
  have "groupsEqual ?d ?g \<longleftrightarrow>
          len ?d = len ?g \<and> remote_pairs ?g = desired_pairs ?d"
    using groupsEqual_length_and_pairs [OF d, of ?g] by (rule conjunct1)
  with e have p: "remote_pairs ?g = desired_pairs ?d"
    by blast
  have n1: "\<not> groupsEqual ?d (Some [\<lparr>g_Name = ''A'', g_Permission = ''read''\<rparr>,
                                      \<lparr>g_Name = ''B'', g_Permission = ''admin''\<rparr>])"
    by (simp add: groupsEqual_def len_def elems_def)
  have n2: "\<not> groupsEqual ?d (Some [\<lparr>g_Name = ''A'', g_Permission = ''read''\<rparr>])"
    by (simp add: groupsEqual_def len_def elems_def)
  from d e p n1 n2 show ?thesis
    by (intro conjI)
qed

text \<open>
  Claim C1 as it is written fails for a remote list that repeats a grant: the two
  sets of pairs are equal and \<open>groupsEqual\<close> is false, since the lengths differ.
\<close>

theorem groupsEqual_set_equality_counterexample:
  "distinct (map ad_Name (elems (Some [\<lparr>ad_Name = ''A'', ad_Permission = ''read''\<rparr>])))
   \<and> remote_pairs (Some [\<lparr>g_Name = ''A'', g_Permission = ''read''\<rparr>,
                          \<lparr>g_Name = ''A'', g_Permission = ''read''\<rparr>])
       = desired_pairs (Some [\<lparr>ad_Name = ''A'', ad_Permission = ''read''\<rparr>])
   \<and> \<not> groupsEqual (Some [\<lparr>ad_Name = ''A'', ad_Permission = ''read''\<rparr>])
                    (Some [\<lparr>g_Name = ''A'', g_Permission = ''read''\<rparr>,
                          \<lparr>g_Name = ''A'', g_Permission = ''read''\<rparr>])"
  by (simp add: groupsEqual_def len_def elems_def remote_pairs_def desired_pairs_def)

section \<open>Update: upserts, then revocations\<close>

lemma Update_recorded:
  assumes u: "svc_Update c (repoToUpdate cr) s = (Inr repo, s1)"
    and g: "svc_GetGroups c repo s1 = ((groups, None), s2)"
  shows "\<exists>log err s4.
           runs_until_first_failure (Update_plan cr repo (elems groups))
             ((CallUpdate (repoToUpdate cr), None) # (CallGetGroups repo, None) # log) err
         \<and> Update (recording c) (RepositoryMG cr) ([], s)
             = ((\<lparr>update_ConnectionDetails = (if err = None then Some [] else None)\<rparr>, err),
                RepositoryMG cr,
                ((CallUpdate (repoToUpdate cr), None) # (CallGetGroups repo, None) # log, s4))
         \<and> Update c (RepositoryMG cr) s
             = ((\<lparr>update_ConnectionDetails = (if err = None then Some [] else None)\<rparr>, err),
                RepositoryMG cr, s4)"
proof -
  let ?desired = "elems (p_Groups (cr_ForProvider cr))"
  let ?adds = "map (\<lambda>g. CallAddGroup repo (toGroup g)) ?desired"
  let ?revokes = "map (CallRevokeGroup repo)
                    (filter (\<lambda>g. g_Name g \<notin> set (map ad_Name ?desired)) (elems groups))"
  let ?tr = "[(CallUpdate (repoToUpdate cr), None), (CallGetGroups repo, None)]"
  have plan: "Update_plan cr repo (elems groups)
                = CallUpdate (repoToUpdate cr) # CallGetGroups repo # ?adds @ ?revokes"
    by (simp add: Update_plan_def)
  obtain e1 tr1 s3 where
    a: "Update_groups (recording c) repo ?desired (?tr, s2) = (e1, (tr1, s3))"
    by (metis surj_pair)
  then have "Create_groups (recording c) repo ?desired (?tr, s2) = (e1, (tr1, s3))"
    by (simp add: Update_groups_eq_Create_groups)
  from Create_groups_recording [OF this] obtain log1 where
    l1: "tr1 = ?tr @ log1"
    and r1: "runs_until_first_failure ?adds log1 e1"
    and b1: "Update_groups c repo ?desired s2 = (e1, s3)"
    by (auto simp: Update_groups_eq_Create_groups)
  show ?thesis
  proof (cases e1)
    case (Some x)
    have "runs_until_first_failure (?adds @ ?revokes) log1 (Some x)"
      using r1 Some by (simp add: runs_append_failed)
    then have "runs_until_first_failure (Update_plan cr repo (elems groups))
             ((CallUpdate (repoToUpdate cr), None) # (CallGetGroups repo, None) # log1) (Some x)"
      by (simp add: plan)
    moreover have "Update (recording c) (RepositoryMG cr) ([], s)
             = ((\<lparr>update_ConnectionDetails = None\<rparr>, Some x), RepositoryMG cr,
                ((CallUpdate (repoToUpdate cr), None) # (CallGetGroups repo, None) # log1, s3))"
      using u g a l1 Some
      by (simp add: Update_def recording_Update recording_GetGroups err_of_def)
    moreover have "Update c (RepositoryMG cr) s
             = ((\<lparr>update_ConnectionDetails = None\<rparr>, Some x), RepositoryMG cr, s3)"
      using u g b1 Some by (simp add: Update_def)
    ultimately show ?thesis
      by (intro exI [of _ log1] exI [of _ "Some x"] exI [of _ s3]) simp
  next
    case None
    obtain e2 tr2 s4 where
      p: "Update_prune (recording c) repo ?desired (elems groups) (tr1, s3) = (e2, (tr2, s4))"
      by (metis surj_pair)
    from Update_prune_recording [OF this] obtain log2 where
      l2: "tr2 = tr1 @ log2"
      and r2: "runs_until_first_failure ?revokes log2 e2"
      and b2: "Update_prune c repo ?desired (elems groups) s3 = (e2, s4)"
      by blast
    have "runs_until_first_failure (?adds @ ?revokes) (log1 @ log2) e2"
      using r1 r2 None by (simp add: runs_append_ok)
    then have "runs_until_first_failure (Update_plan cr repo (elems groups))
             ((CallUpdate (repoToUpdate cr), None) # (CallGetGroups repo, None) # log1 @ log2) e2"
      by (simp add: plan)
    moreover have "Update (recording c) (RepositoryMG cr) ([], s)
             = ((\<lparr>update_ConnectionDetails = (if e2 = None then Some [] else None)\<rparr>, e2),
                RepositoryMG cr,
                ((CallUpdate (repoToUpdate cr), None) # (CallGetGroups repo, None) # log1 @ log2,
                 s4))"
      using u g a l1 None p l2
      by (cases e2) (simp_all add: Update_def recording_Update recording_GetGroups err_of_def)
    moreover have "Update c (RepositoryMG cr) s
             = ((\<lparr>update_ConnectionDetails = (if e2 = None then Some [] else None)\<rparr>, e2),
                RepositoryMG cr, s4)"
      using u g b1 None b2 by (cases e2) (simp_all add: Update_def)
    ultimately show ?thesis
      by (intro exI [of _ "log1 @ log2"] exI [of _ e2] exI [of _ s4]) simp
  qed
qed

lemma Update_plan_revokes:
  "list_all (\<lambda>c. \<not> revokes_one_of (map ad_Name (elems (p_Groups (cr_ForProvider cr)))) c)
     (Update_plan cr repo groups)"
  by (auto simp: Update_plan_def list_all_iff)

lemma no_revoke_in_plan:
  assumes "runs_until_first_failure plan log err"
    and "list_all (\<lambda>c. \<not> revokes_one_of names c) plan"
  shows "list_all (\<lambda>e. \<not> revokes_one_of names (fst e)) log"
proof -
  have "set (map fst log) \<subseteq> set plan"
    using assms(1) by (rule runs_calls_subset)
  with assms(2) show ?thesis
    by (auto simp: list_all_iff)
qed

text \<open>
  Claim C2. \<open>Update\<close> first calls the update of the repository, and then lists the
  remote grants of the repository it got back; when one of the two fails, its error is
  returned and no other call is made. Otherwise the calls follow the plan: after the
  update and the listing, one \<open>AddGroup\<close> for every grant of the desired list, in its
  order, and only then one \<open>RevokeGroup\<close> for every remote grant whose name is not in
  the desired list, in the order of the listing. The first call that fails is the last
  call made and its error is the one returned; calls already made are not undone. The
  error and the state of the server are those of \<open>Update\<close> on the plain service. No
  grant whose name is desired is ever revoked. For the remote grants \<open>A:read\<close>,
  \<open>B:write\<close> and the desired grants \<open>A:admin\<close>, \<open>C:read\<close> the plan is: update, list,
  upsert \<open>A:admin\<close>, upsert \<open>C:read\<close>, revoke \<open>B\<close>.
\<close>

theorem Update_calls:
  "(svc_Update c (repoToUpdate cr) s = (Inl err, s1) \<longrightarrow>
      returned_error (Update (recording c) (RepositoryMG cr) ([], s)) = Some err
    \<and> calls_made (Update (recording c) (RepositoryMG cr) ([], s))
        = [(CallUpdate (repoToUpdate cr), Some err)])
   \<and> (svc_Update c (repoToUpdate cr) s = (Inr repo, s1)
      \<and> svc_GetGroups c repo s1 = ((groups, Some err), s2) \<longrightarrow>
      returned_error (Update (recording c) (RepositoryMG cr) ([], s)) = Some err
    \<and> calls_made (Update (recording c) (RepositoryMG cr) ([], s))
        = [(CallUpdate (repoToUpdate cr), None), (CallGetGroups repo, Some err)])
   \<and> (svc_Update c (repoToUpdate cr) s = (Inr repo, s1)
      \<and> svc_GetGroups c repo s1 = ((groups, None), s2) \<longrightarrow>
      runs_until_first_failure (Update_plan cr repo (elems groups))
        (calls_made (Update (recording c) (RepositoryMG cr) ([], s)))
        (returned_error (Update (recording c) (RepositoryMG cr) ([], s)))
    \<and> returned_error (Update (recording c) (RepositoryMG cr) ([], s))
        = returned_error (Update c (RepositoryMG cr) s)
    \<and> snd (snd (snd (Update (recording c) (RepositoryMG cr) ([], s))))
        = snd (snd (Update c (RepositoryMG cr) s)))
   \<and> list_all
        (\<lambda>e. \<not> revokes_one_of (map ad_Name (elems (p_Groups (cr_ForProvider cr)))) (fst e))
        (calls_made (Update (recording c) (RepositoryMG cr) ([], s)))
   \<and> (elems (p_Groups (cr_ForProvider cr))
        = [\<lparr>ad_Name = ''A'', ad_Permission = ''admin''\<rparr>,
           \<lparr>ad_Name = ''C'', ad_Permission = ''read''\<rparr>] \<longrightarrow>
      Update_plan cr repo [\<lparr>g_Name = ''A'', g_Permission = ''read''\<rparr>,
                           \<lparr>g_Name = ''B'', g_Permission = ''write''\<rparr>]
        = [CallUpdate (repoToUpdate cr), CallGetGroups repo,
           CallAddGroup repo \<lparr>g_Name = ''A'', g_Permission = ''admin''\<rparr>,
           CallAddGroup repo \<lparr>g_Name = ''C'', g_Permission = ''read''\<rparr>,
           CallRevokeGroup repo \<lparr>g_Name = ''B'', g_Permission = ''write''\<rparr>])"
proof (intro conjI impI)
  assume a: "svc_Update c (repoToUpdate cr) s = (Inl err, s1)"
  then show "returned_error (Update (recording c) (RepositoryMG cr) ([], s)) = Some err"
    by (simp add: Update_def recording_Update returned_error_def)
  from a show "calls_made (Update (recording c) (RepositoryMG cr) ([], s))
        = [(CallUpdate (repoToUpdate cr), Some err)]"
    by (simp add: Update_def recording_Update calls_made_def err_of_def)
next
  assume a: "svc_Update c (repoToUpdate cr) s = (Inr repo, s1)
      \<and> svc_GetGroups c repo s1 = ((groups, Some err), s2)"
  then show "returned_error (Update (recording c) (RepositoryMG cr) ([], s)) = Some err"
    by (simp add: Update_def recording_Update recording_GetGroups returned_error_def)
  from a show "calls_made (Update (recording c) (RepositoryMG cr) ([], s))
        = [(CallUpdate (repoToUpdate cr), None), (CallGetGroups repo, Some err)]"
    by (simp add: Update_def recording_Update recording_GetGroups calls_made_def err_of_def)
next
  assume a: "svc_Update c (repoToUpdate cr) s = (Inr repo, s1)
      \<and> svc_GetGroups c repo s1 = ((groups, None), s2)"
  then have u: "svc_Update c (repoToUpdate cr) s = (Inr repo, s1)"
    and g: "svc_GetGroups c repo s1 = ((groups, None), s2)"
    by simp_all
  from Update_recorded [OF u g] obtain log e s4 where
    r: "runs_until_first_failure (Update_plan cr repo (elems groups))
             ((CallUpdate (repoToUpdate cr), None) # (CallGetGroups repo, None) # log) e"
    and R: "Update (recording c) (RepositoryMG cr) ([], s)
             = ((\<lparr>update_ConnectionDetails = (if e = None then Some [] else None)\<rparr>, e),
                RepositoryMG cr,
                ((CallUpdate (repoToUpdate cr), None) # (CallGetGroups repo, None) # log, s4))"
    and U: "Update c (RepositoryMG cr) s
             = ((\<lparr>update_ConnectionDetails = (if e = None then Some [] else None)\<rparr>, e),
                RepositoryMG cr, s4)"
    by blast
  show "runs_until_first_failure (Update_plan cr repo (elems groups))
        (calls_made (Update (recording c) (RepositoryMG cr) ([], s)))
        (returned_error (Update (recording c) (RepositoryMG cr) ([], s)))"
    using r by (simp add: R calls_made_def returned_error_def)
  show "returned_error (Update (recording c) (RepositoryMG cr) ([], s))
        = returned_error (Update c (RepositoryMG cr) s)"
    by (simp add: R U returned_error_def)
  show "snd (snd (snd (Update (recording c) (RepositoryMG cr) ([], s))))
        = snd (snd (Update c (RepositoryMG cr) s))"
    by (simp add: R U)
next
  let ?names = "map ad_Name (elems (p_Groups (cr_ForProvider cr)))"
  show "list_all (\<lambda>e. \<not> revokes_one_of ?names (fst e))
          (calls_made (Update (recording c) (RepositoryMG cr) ([], s)))"
  proof (cases "svc_Update c (repoToUpdate cr) s")
    case (Pair res s1)
    show ?thesis
    proof (cases res)
      case (Inl err)
      with Pair show ?thesis
        by (simp add: Update_def recording_Update calls_made_def err_of_def)
    next
      case (Inr repo)
      with Pair have u: "svc_Update c (repoToUpdate cr) s = (Inr repo, s1)"
        by simp
      obtain groups gerr s2 where g: "svc_GetGroups c repo s1 = ((groups, gerr), s2)"
        by (metis surj_pair)
      show ?thesis
      proof (cases gerr)
        case (Some x)
        with u g show ?thesis
          by (simp add: Update_def recording_Update recording_GetGroups calls_made_def err_of_def)
      next
        case None
        with g have g1: "svc_GetGroups c repo s1 = ((groups, None), s2)"
          by simp
        from Update_recorded [OF u g1] obtain log e where
          r: "runs_until_first_failure (Update_plan cr repo (elems groups))
                ((CallUpdate (repoToUpdate cr), None) # (CallGetGroups repo, None) # log) e"
          and R: "calls_made (Update (recording c) (RepositoryMG cr) ([], s))
                    = (CallUpdate (repoToUpdate cr), None) # (CallGetGroups repo, None) # log"
          by (auto simp: calls_made_def)
        from no_revoke_in_plan [OF r Update_plan_revokes] R show ?thesis
          by simp
      qed
    qed
  qed
next
  assume "elems (p_Groups (cr_ForProvider cr))
        = [\<lparr>ad_Name = ''A'', ad_Permission = ''admin''\<rparr>,
           \<lparr>ad_Name = ''C'', ad_Permission = ''read''\<rparr>]"
  then show "Update_plan cr repo [\<lparr>g_Name = ''A'', g_Permission = ''read''\<rparr>,
                           \<lparr>g_Name = ''B'', g_Permission = ''write''\<rparr>]
        = [CallUpdate (repoToUpdate cr), CallGetGroups repo,
           CallAddGroup repo \<lparr>g_Name = ''A'', g_Permission = ''admin''\<rparr>,
           CallAddGroup repo \<lparr>g_Name = ''C'', g_Permission = ''read''\<rparr>,
           CallRevokeGroup repo \<lparr>g_Name = ''B'', g_Permission = ''write''\<rparr>]"
    by (simp add: Update_plan_def toGroup_def)
qed

text \<open>
  The theorem of claim C2 on the scenario of the specification, on a server that
  accepts every call.
\<close>

theorem Update_calls_witness:
  "svc_Update fakeService (repoToUpdate update_cr) (update_server [])
     = (Inr (update_repo ''x''), (update_server [])\<lparr>fake_repo := Some (update_repo ''x'')\<rparr>)
   \<and> fst (svc_GetGroups fakeService (update_repo ''x'')
            ((update_server [])\<lparr>fake_repo := Some (update_repo ''x'')\<rparr>))
     = (Some [\<lparr>g_Name = ''A'', g_Permission = ''read''\<rparr>,
              \<lparr>g_Name = ''B'', g_Permission = ''write''\<rparr>], None)
   \<and> runs_until_first_failure
        (Update_plan update_cr (update_repo ''x'')
           [\<lparr>g_Name = ''A'', g_Permission = ''read''\<rparr>,
            \<lparr>g_Name = ''B'', g_Permission = ''write''\<rparr>])
        (calls_made (Update (recording fakeService) (RepositoryMG update_cr)
                       ([], update_server [])))
        (returned_error (Update (recording fakeService) (RepositoryMG update_cr)
                       ([], update_server [])))
   \<and> calls_made (Update (recording fakeService) (RepositoryMG update_cr) ([], update_server []))
     = [(CallUpdate (repoToUpdate update_cr), None),
        (CallGetGroups (update_repo ''x''), None),
        (CallAddGroup (update_repo ''x'') \<lparr>g_Name = ''A'', g_Permission = ''admin''\<rparr>, None),
        (CallAddGroup (update_repo ''x'') \<lparr>g_Name = ''C'', g_Permission = ''read''\<rparr>, None),
        (CallRevokeGroup (update_repo ''x'') \<lparr>g_Name = ''B'', g_Permission = ''write''\<rparr>, None)]
   \<and> returned_error (Update (recording fakeService) (RepositoryMG update_cr)
                       ([], update_server [])) = None
   \<and> fake_groups (snd (snd (snd (Update (recording fakeService) (RepositoryMG update_cr)
                                    ([], update_server [])))))
     = [\<lparr>g_Name = ''A'', g_Permission = ''admin''\<rparr>,
        \<lparr>g_Name = ''C'', g_Permission = ''read''\<rparr>]"
proof -
  let ?s1 = "(update_server [])\<lparr>fake_repo := Some (update_repo ''x'')\<rparr>"
  let ?groups = "Some [\<lparr>g_Name = ''A'', g_Permission = ''read''\<rparr>,
                       \<lparr>g_Name = ''B'', g_Permission = ''write''\<rparr>]"
  let ?R = "Update (recording fakeService) (RepositoryMG update_cr) ([], update_server [])"
  have u: "svc_Update fakeService (repoToUpdate update_cr) (update_server [])
             = (Inr (update_repo ''x''), ?s1)"
    by (simp add: fake_service_defs)
  have g: "svc_GetGroups fakeService (update_repo ''x'') ?s1 = ((?groups, None), ?s1)"
    by (simp add: fake_service_defs)
  have "runs_until_first_failure (Update_plan update_cr (update_repo ''x'') (elems ?groups))
          (calls_made ?R) (returned_error ?R)"
    using Update_calls [where c = fakeService and cr = update_cr and s = "update_server []"
        and repo = "update_repo ''x''" and ?s1.0 = ?s1 and groups = ?groups and ?s2.0 = ?s1]
      u g
    by blast
  then have r: "runs_until_first_failure
        (Update_plan update_cr (update_repo ''x'')
           [\<lparr>g_Name = ''A'', g_Permission = ''read''\<rparr>,
            \<lparr>g_Name = ''B'', g_Permission = ''write''\<rparr>])
        (calls_made ?R) (returned_error ?R)"
    by (simp add: elems_def)
  have R: "?R = ((\<lparr>update_ConnectionDetails = Some []\<rparr>, None), RepositoryMG update_cr,
     ([(CallUpdate (repoToUpdate update_cr), None),
        (CallGetGroups (update_repo ''x''), None),
        (CallAddGroup (update_repo ''x'') \<lparr>g_Name = ''A'', g_Permission = ''admin''\<rparr>, None),
        (CallAddGroup (update_repo ''x'') \<lparr>g_Name = ''C'', g_Permission = ''read''\<rparr>, None),
        (CallRevokeGroup (update_repo ''x'') \<lparr>g_Name = ''B'', g_Permission = ''write''\<rparr>, None)],
      \<lparr>fake_repo = Some (update_repo ''x''),
       fake_groups = [\<lparr>g_Name = ''A'', g_Permission = ''admin''\<rparr>,
                      \<lparr>g_Name = ''C'', g_Permission = ''read''\<rparr>],
       fake_failing = []\<rparr>))"
    by (simp add: Update_def fake_service_defs)
  have c: "calls_made ?R
     = [(CallUpdate (repoToUpdate update_cr), None),
        (CallGetGroups (update_repo ''x''), None),
        (CallAddGroup (update_repo ''x'') \<lparr>g_Name = ''A'', g_Permission = ''admin''\<rparr>, None),
        (CallAddGroup (update_repo ''x'') \<lparr>g_Name = ''C'', g_Permission = ''read''\<rparr>, None),
        (CallRevokeGroup (update_repo ''x'') \<lparr>g_Name = ''B'', g_Permission = ''write''\<rparr>, None)]"
    by (simp add: R calls_made_def)
  have e: "returned_error ?R = None"
    by (simp add: R returned_error_def)
  have f: "fake_groups (snd (snd (snd ?R)))
     = [\<lparr>g_Name = ''A'', g_Permission = ''admin''\<rparr>,
        \<lparr>g_Name = ''C'', g_Permission = ''read''\<rparr>]"
    by (simp add: R)
  have g1: "fst (svc_GetGroups fakeService (update_repo ''x'') ?s1) = (?groups, None)"
    by (simp add: g)
  from u g1 r c e f show ?thesis
    by (intro conjI)
qed

text \<open>
  When the server refuses the upsert of \<open>C\<close>, \<open>Update\<close> stops there: nothing is
  revoked, and the new permission of \<open>A\<close> stays.
\<close>

lemma Update_aborts_example:
  "Update (recording fakeService) (RepositoryMG update_cr)
     ([], update_server
            [(CallAddGroup (update_repo ''x'') \<lparr>g_Name = ''C'', g_Permission = ''read''\<rparr>,
              ErrPermission)])
   = ((\<lparr>update_ConnectionDetails = None\<rparr>, Some ErrPermission), RepositoryMG update_cr,
      ([(CallUpdate (repoToUpdate update_cr), None),
        (CallGetGroups (update_repo ''x''), None),
        (CallAddGroup (update_repo ''x'') \<lparr>g_Name = ''A'', g_Permission = ''admin''\<rparr>, None),
        (CallAddGroup (update_repo ''x'') \<lparr>g_Name = ''C'', g_Permission = ''read''\<rparr>,
         Some ErrPermission)],
       \<lparr>fake_repo = Some (update_repo ''x''),
        fake_groups = [\<lparr>g_Name = ''A'', g_Permission = ''admin''\<rparr>,
                       \<lparr>g_Name = ''B'', g_Permission = ''write''\<rparr>],
        fake_failing =
          [(CallAddGroup (update_repo ''x'') \<lparr>g_Name = ''C'', g_Permission = ''read''\<rparr>,
            ErrPermission)]\<rparr>))"
  by (simp add: Update_def fake_service_defs)

section \<open>Observe: a fetch that fails\<close>

text \<open>
  Claim C3. When the fetch of the repository fails with an error that
  \<open>errors.Is\<close> classifies as \<open>ErrNotFound\<close>, \<open>Observe\<close> returns an observation
  with \<open>ResourceExists = false\<close> and a nil error. When it fails with any other
  error, \<open>Observe\<close> returns that error (wrapped under a message) with the zero
  observation, and leaves the managed resource as it was. In both cases the fetch is
  the only call made.
\<close>

theorem Observe_fetch_failure:
  assumes "svc_Get c (repoRef cr) s = (Inl err, s1)"
  shows "Observe c (RepositoryMG cr) s =
           (if errors_Is err ErrNotFound
            then ((\<lparr>ResourceExists = False, ResourceUpToDate = False,
                     obs_ConnectionDetails = None\<rparr>, None), RepositoryMG cr, s1)
            else ((\<lparr>ResourceExists = False, ResourceUpToDate = False,
                     obs_ConnectionDetails = None\<rparr>,
                   Some (Wrap ''error fetching Bitbucket repository'' err)), RepositoryMG cr, s1))
       \<and> calls_made (Observe (recording c) (RepositoryMG cr) ([], s))
           = [(CallGet (repoRef cr), Some err)]"
  using assms by (simp add: Observe_def recording_Get calls_made_def err_of_def)

text \<open>
  The theorem of claim C3 on the service over a server that answers 404: the error of
  \<open>Get\<close> wraps \<open>ErrNotFound\<close>, and \<open>Observe\<close> reports a missing repository.
\<close>

theorem Observe_fetch_failure_witness:
  "svc_Get (repositoryService fakeLibrary
             (fakeDecoders '''' repositoryJson_zero '''' \<lparr>Values = None\<rparr>) (fakeClient []))
     (repoRef example_cr) []
   = (Inl (Wrap ''error fetching repository'' ErrNotFound),
      [\<lparr>req_Method = ''GET'',
        req_URL = ''https://bitbucket.example/rest/api/1.0/projects/CORE/repos/svc'',
        req_Body = None,
        req_Header = [(''Authorization'', ''Bearer token''), (''Accept'', ''application/json'')]\<rparr>])
   \<and> returned (Observe (repositoryService fakeLibrary
             (fakeDecoders '''' repositoryJson_zero '''' \<lparr>Values = None\<rparr>) (fakeClient []))
          (RepositoryMG example_cr) [])
       = \<lparr>ResourceExists = False, ResourceUpToDate = False, obs_ConnectionDetails = None\<rparr>
   \<and> returned_error (Observe (repositoryService fakeLibrary
             (fakeDecoders '''' repositoryJson_zero '''' \<lparr>Values = None\<rparr>) (fakeClient []))
          (RepositoryMG example_cr) []) = None
   \<and> resource_after (Observe (repositoryService fakeLibrary
             (fakeDecoders '''' repositoryJson_zero '''' \<lparr>Values = None\<rparr>) (fakeClient []))
          (RepositoryMG example_cr) []) = RepositoryMG example_cr"
proof -
  let ?c = "repositoryService fakeLibrary
             (fakeDecoders '''' repositoryJson_zero '''' \<lparr>Values = None\<rparr>) (fakeClient [])"
  have h: "svc_Get ?c (repoRef example_cr) []
   = (Inl (Wrap ''error fetching repository'' ErrNotFound),
      [\<lparr>req_Method = ''GET'',
        req_URL = ''https://bitbucket.example/rest/api/1.0/projects/CORE/repos/svc'',
        req_Body = None,
        req_Header = [(''Authorization'', ''Bearer token''), (''Accept'', ''application/json'')]\<rparr>])"
    by (simp add: fake_http_defs)
  from Observe_fetch_failure [OF h] h show ?thesis
    by (simp add: returned_def returned_error_def resource_after_def)
qed

section \<open>Observe: a description that differs\<close>

text \<open>
  Claim C4. When the fetch of the repository succeeds and the remote description
  differs from the desired one, \<open>Observe\<close> returns \<open>ResourceExists = true\<close> and
  \<open>ResourceUpToDate = false\<close> with a nil error. It does so without listing the
  grants: the result is the same whatever \<open>GetGroups\<close> would do, and the fetch is the
  only call made.
\<close>

theorem Observe_description_mismatch:
  assumes "svc_Get c (repoRef cr) s = (Inr repository, s1)"
    and "r_Description repository \<noteq> p_Description (cr_ForProvider cr)"
  shows "Observe c (RepositoryMG cr) s =
           ((\<lparr>ResourceExists = True, ResourceUpToDate = False, obs_ConnectionDetails = None\<rparr>,
             None),
            RepositoryMG (cr\<lparr>cr_Ready := Some Available, cr_AtProvider_ID := r_ID repository\<rparr>),
            s1)
       \<and> Observe (c\<lparr>svc_GetGroups := gg\<rparr>) (RepositoryMG cr) s = Observe c (RepositoryMG cr) s
       \<and> calls_made (Observe (recording c) (RepositoryMG cr) ([], s))
           = [(CallGet (repoRef cr), None)]"
  using assms by (simp add: Observe_def recording_Get calls_made_def err_of_def)

text \<open>
  The theorem of claim C4 on a server that holds the repository under another
  description: one request is sent, and none for the grants.
\<close>

theorem Observe_description_mismatch_witness:
  "fst (svc_Get (repositoryService fakeLibrary
             (fakeDecoders ''R''
                \<lparr>j_ID = 7, j_Name = ''svc'', j_Project_Key = ''CORE'', j_Description = ''old''\<rparr>
                '''' \<lparr>Values = None\<rparr>)
             (fakeClient
                [(''GET'', ''https://bitbucket.example/rest/api/1.0/projects/CORE/repos/svc'',
                  200, ''R'')]))
          (repoRef example_cr) [])
     = Inr \<lparr>r_ID = 7, r_Name = ''svc'', r_Public = False, r_Project = ''CORE'',
            r_Description = ''old''\<rparr>
   \<and> ''old'' \<noteq> p_Description (cr_ForProvider example_cr)
   \<and> fst (Observe (repositoryService fakeLibrary
             (fakeDecoders ''R''
                \<lparr>j_ID = 7, j_Name = ''svc'', j_Project_Key = ''CORE'', j_Description = ''old''\<rparr>
                '''' \<lparr>Values = None\<rparr>)
             (fakeClient
                [(''GET'', ''https://bitbucket.example/rest/api/1.0/projects/CORE/repos/svc'',
                  200, ''R'')]))
          (RepositoryMG example_cr) [])
       = (\<lparr>ResourceExists = True, ResourceUpToDate = False, obs_ConnectionDetails = None\<rparr>, None)
   \<and> map req_URL (snd (snd (Observe (repositoryService fakeLibrary
             (fakeDecoders ''R''
                \<lparr>j_ID = 7, j_Name = ''svc'', j_Project_Key = ''CORE'', j_Description = ''old''\<rparr>
                '''' \<lparr>Values = None\<rparr>)
             (fakeClient
                [(''GET'', ''https://bitbucket.example/rest/api/1.0/projects/CORE/repos/svc'',
                  200, ''R'')]))
          (RepositoryMG example_cr) [])))
       = [''https://bitbucket.example/rest/api/1.0/projects/CORE/repos/svc'']"
proof -
  let ?c = "repositoryService fakeLibrary
             (fakeDecoders ''R''
                \<lparr>j_ID = 7, j_Name = ''svc'', j_Project_Key = ''CORE'', j_Description = ''old''\<rparr>
                '''' \<lparr>Values = None\<rparr>)
             (fakeClient
                [(''GET'', ''https://bitbucket.example/rest/api/1.0/projects/CORE/repos/svc'',
                  200, ''R'')])"
  let ?req = "\<lparr>req_Method = ''GET'',
        req_URL = ''https://bitbucket.example/rest/api/1.0/projects/CORE/repos/svc'',
        req_Body = None,
        req_Header = [(''Authorization'', ''Bearer token''), (''Accept'', ''application/json'')]\<rparr>"
  let ?repo = "\<lparr>r_ID = 7, r_Name = ''svc'', r_Public = False, r_Project = ''CORE'',
            r_Description = ''old''\<rparr>"
  have h: "svc_Get ?c (repoRef example_cr) [] = (Inr ?repo, [?req])"
    by (simp add: fake_http_defs)
  have d: "r_Description ?repo \<noteq> p_Description (cr_ForProvider example_cr)"
    by (simp add: example_cr_def)
  from Observe_description_mismatch [OF h d] h d show ?thesis
    by simp
qed

section \<open>The classification of responses\<close>

text \<open>
  Claim C5, as amended. \<open>handleResponse\<close> first reads the body, and a response
  whose body cannot be read yields the read error whatever its status code. For a
  response whose body was read: status 404 yields \<open>ErrNotFound\<close>, 401 yields
  \<open>ErrPermission\<close>, 409 yields \<open>ErrConflict\<close>, and any other status of 400 or more
  yields an error that carries the request URL and the status code. Below 400, a nil
  target or status 204 yields nil, whatever the decoder would do, and the target is
  left as it was. Otherwise the body is decoded into the target: a JSON syntax error
  becomes \<open>ErrResponseMalformed\<close>, and any other decoding error is returned as it is.
\<close>

theorem handleResponse_classification:
  "(res_Body res = Inl rerr \<longrightarrow> handleResponse unmarshal res v = (Some rerr, v))
   \<and> (res_Body res = Inr out \<longrightarrow>
        (res_StatusCode res = 404 \<longrightarrow> handleResponse unmarshal res v = (Some ErrNotFound, v))
      \<and> (res_StatusCode res = 401 \<longrightarrow> handleResponse unmarshal res v = (Some ErrPermission, v))
      \<and> (res_StatusCode res = 409 \<longrightarrow> handleResponse unmarshal res v = (Some ErrConflict, v))
      \<and> (res_StatusCode res \<ge> 400 \<and> res_StatusCode res \<notin> {404, 401, 409} \<longrightarrow>
            handleResponse unmarshal res v
              = (Some (StatusError (res_Request_URL res) (res_StatusCode res)), v))
      \<and> (res_StatusCode res < 400 \<and> (v = None \<or> res_StatusCode res = 204) \<longrightarrow>
            handleResponse unmarshal res v = (None, v))
      \<and> (res_StatusCode res < 400 \<and> res_StatusCode res \<noteq> 204 \<and> v = Some t \<longrightarrow>
            (unmarshal out t = (None, t1) \<longrightarrow>
               handleResponse unmarshal res v = (None, Some t1))
          \<and> (unmarshal out t = (Some err, t1) \<and> errors_As_SyntaxError err \<longrightarrow>
               handleResponse unmarshal res v = (Some ErrResponseMalformed, Some t1))
          \<and> (unmarshal out t = (Some err, t1) \<and> \<not> errors_As_SyntaxError err \<longrightarrow>
               handleResponse unmarshal res v = (Some err, Some t1))))"
  by (cases v) (auto simp: handleResponse_def)

text \<open>
  The theorem of claim C5 on four responses: a body that is not JSON under status 200,
  and the statuses 401, 500 and 204.
\<close>

theorem handleResponse_classification_witness:
  "handleResponse (json_Unmarshal_repositoryJson
                      (fakeDecoders ''R'' repositoryJson_zero '''' \<lparr>Values = None\<rparr>))
      \<lparr>res_StatusCode = 200, res_Body = Inr ''<html>'', res_Request_URL = ''u''\<rparr>
      (Some repositoryJson_zero)
     = (Some ErrResponseMalformed, Some repositoryJson_zero)
   \<and> handleResponse (json_Unmarshal_repositoryJson
                      (fakeDecoders ''R'' repositoryJson_zero '''' \<lparr>Values = None\<rparr>))
      \<lparr>res_StatusCode = 401, res_Body = Inr ''<html>'', res_Request_URL = ''u''\<rparr>
      (Some repositoryJson_zero)
     = (Some ErrPermission, Some repositoryJson_zero)
   \<and> handleResponse (json_Unmarshal_repositoryJson
                      (fakeDecoders ''R'' repositoryJson_zero '''' \<lparr>Values = None\<rparr>))
      \<lparr>res_StatusCode = 500, res_Body = Inr ''<html>'', res_Request_URL = ''u''\<rparr>
      (Some repositoryJson_zero)
     = (Some (StatusError ''u'' 500), Some repositoryJson_zero)
   \<and> handleResponse (json_Unmarshal_repositoryJson
                      (fakeDecoders ''R'' repositoryJson_zero '''' \<lparr>Values = None\<rparr>))
      \<lparr>res_StatusCode = 204, res_Body = Inr ''<html>'', res_Request_URL = ''u''\<rparr>
      (Some repositoryJson_zero)
     = (None, Some repositoryJson_zero)"
proof -
  let ?u = "json_Unmarshal_repositoryJson
              (fakeDecoders ''R'' repositoryJson_zero '''' \<lparr>Values = None\<rparr>)"
  have s: "?u ''<html>'' repositoryJson_zero
             = (Some (JsonSyntaxError ''invalid character''), repositoryJson_zero)"
    by (simp add: fakeDecoders_def)
  have e: "errors_As_SyntaxError (JsonSyntaxError ''invalid character'')"
    by simp
  show ?thesis
    using s e
      handleResponse_classification [of
        "\<lparr>res_StatusCode = 200, res_Body = Inr ''<html>'', res_Request_URL = ''u''\<rparr>"
        _ ?u "Some repositoryJson_zero" "''<html>''" repositoryJson_zero repositoryJson_zero
        "JsonSyntaxError ''invalid character''"]
      handleResponse_classification [of
        "\<lparr>res_StatusCode = 401, res_Body = Inr ''<html>'', res_Request_URL = ''u''\<rparr>"
        _ ?u "Some repositoryJson_zero" "''<html>''"]
      handleResponse_classification [of
        "\<lparr>res_StatusCode = 500, res_Body = Inr ''<html>'', res_Request_URL = ''u''\<rparr>"
        _ ?u "Some repositoryJson_zero" "''<html>''"]
      handleResponse_classification [of
        "\<lparr>res_StatusCode = 204, res_Body = Inr ''<html>'', res_Request_URL = ''u''\<rparr>"
        _ ?u "Some repositoryJson_zero" "''<html>''"]
    by simp
qed

text \<open>
  Claim C5 as it is written fails for a response with status 404 whose body cannot be
  read: the read error is returned, not \<open>ErrNotFound\<close>.
\<close>

theorem handleResponse_unread_body_counterexample:
  "fst (handleResponse no_target
          \<lparr>res_StatusCode = 404, res_Body = Inl (LibraryError ''unexpected EOF''),
           res_Request_URL = ''https://bitbucket.example/rest/api/1.0/projects''\<rparr> None)
     = Some (LibraryError ''unexpected EOF'')
   \<and> fst (handleResponse no_target
          \<lparr>res_StatusCode = 404, res_Body = Inl (LibraryError ''unexpected EOF''),
           res_Request_URL = ''https://bitbucket.example/rest/api/1.0/projects''\<rparr> None)
     \<noteq> Some ErrNotFound"
  by (simp add: handleResponse_def)

section \<open>The request that deletes a repository\<close>

lemma newRequest_method_url:
  assumes "newRequest L c method path body = Inr req"
  shows "req_Method req = method \<and> url_Parse L (baseURL c) path = Inr (req_URL req)"
  using assms
  by (auto simp: newRequest_def http_NewRequest_def newRequest_headers_def
           split: sum.splits option.splits if_splits)

lemma internal_Delete_requests:
  assumes "newRequest L c ''PUT'' (repo_path repository) None = Inr req"
  shows "internal_repositoryService_Delete L c repository w
           = (case do no_target c req None w of
                ((Some err, v), w1) \<Rightarrow> (Some (Wrap ''error deleting repository'' err), w1)
              | ((None, v), w1) \<Rightarrow> (None, w1))
         \<and> req_Method req = ''PUT''"
  using assms newRequest_method_url [OF assms]
  by (simp add: internal_repositoryService_Delete_def)

text \<open>
  The service with the group operations sends a DELETE request to
  \<open>projects/CORE/repos/svc\<close> for the repository \<open>svc\<close> of the project \<open>CORE\<close>,
  and the server that knows this request answers 204.
\<close>

lemma repositoryService_Delete_sends_DELETE:
  "repositoryService_Delete fakeLibrary
     (fakeClient
        [(''DELETE'', ''https://bitbucket.example/rest/api/1.0/projects/CORE/repos/svc'', 204, '''')])
     \<lparr>r_ID = 0, r_Name = ''svc'', r_Public = False, r_Project = ''CORE'', r_Description = ''''\<rparr>
     []
   = (None,
      [\<lparr>req_Method = ''DELETE'',
        req_URL = ''https://bitbucket.example/rest/api/1.0/projects/CORE/repos/svc'',
        req_Body = Some '''',
        req_Header = [(''Authorization'', ''Bearer token''), (''Accept'', ''application/json''),
                      (''Content-Type'', ''application/json'')]\<rparr>])"
  by (simp add: fake_call_defs)

text \<open>
  Claim C6 asks for a DELETE request. \<open>Delete\<close> of
  \<open>internal/bitbucket/repository.go\<close> sends a PUT request with an empty body to the
  same path, which the same server answers with 404.
\<close>

theorem internal_Delete_sends_PUT:
  "internal_repositoryService_Delete fakeLibrary
     (fakeClient
        [(''DELETE'', ''https://bitbucket.example/rest/api/1.0/projects/CORE/repos/svc'', 204, '''')])
     \<lparr>r_ID = 0, r_Name = ''svc'', r_Public = False, r_Project = ''CORE'', r_Description = ''''\<rparr>
     []
   = (Some (Wrap ''error deleting repository'' ErrNotFound),
      [\<lparr>req_Method = ''PUT'',
        req_URL = ''https://bitbucket.example/rest/api/1.0/projects/CORE/repos/svc'',
        req_Body = Some '''',
        req_Header = [(''Authorization'', ''Bearer token''), (''Accept'', ''application/json''),
                      (''Content-Type'', ''application/json'')]\<rparr>])"
  by (simp add: fake_call_defs)

section \<open>Create: the repository, then its grants\<close>

lemma no_undo_in_plan:
  assumes "runs_until_first_failure plan log err"
    and "list_all (\<lambda>c. \<not> undoes c) plan"
  shows "list_all (\<lambda>e. \<not> undoes (fst e)) log"
proof -
  have "set (map fst log) \<subseteq> set plan"
    using assms(1) by (rule runs_calls_subset)
  with assms(2) show ?thesis
    by (auto simp: list_all_iff)
qed

lemma Create_plan_no_undo: "list_all (\<lambda>c. \<not> undoes c) (Create_plan cr repository)"
  by (simp add: Create_plan_def list_all_iff)

lemma Create_recorded:
  assumes "svc_Create c (repoToCreate cr) s = (Inr repository, s1)"
  shows "\<exists>log err s2.
           Create_groups c repository (elems (p_Groups (cr_ForProvider cr))) s1 = (err, s2)
         \<and> runs_until_first_failure
             (map (\<lambda>g. CallAddGroup repository (toGroup g)) (elems (p_Groups (cr_ForProvider cr))))
             log err
         \<and> Create (recording c) (RepositoryMG cr) ([], s)
             = ((\<lparr>creation_ConnectionDetails = (if err = None then Some [] else None)\<rparr>, err),
                RepositoryMG (if err = None
                              then cr\<lparr>cr_Ready := Some Creating,
                                       cr_ExternalName := Some (r_Name repository)\<rparr>
                              else cr\<lparr>cr_Ready := Some Creating\<rparr>),
                ((CallCreate (repoToCreate cr), None) # log, s2))"
proof -
  obtain err tr1 s2 where
    g: "Create_groups (recording c) repository (elems (p_Groups (cr_ForProvider cr)))
          ([(CallCreate (repoToCreate cr), None)], s1) = (err, (tr1, s2))"
    by (metis surj_pair)
  from Create_groups_recording [OF g] obtain log where
    l: "tr1 = [(CallCreate (repoToCreate cr), None)] @ log"
    and r: "runs_until_first_failure
             (map (\<lambda>g. CallAddGroup repository (toGroup g)) (elems (p_Groups (cr_ForProvider cr))))
             log err"
    and b: "Create_groups c repository (elems (p_Groups (cr_ForProvider cr))) s1 = (err, s2)"
    by blast
  have "Create (recording c) (RepositoryMG cr) ([], s)
             = ((\<lparr>creation_ConnectionDetails = (if err = None then Some [] else None)\<rparr>, err),
                RepositoryMG (if err = None
                              then cr\<lparr>cr_Ready := Some Creating,
                                       cr_ExternalName := Some (r_Name repository)\<rparr>
                              else cr\<lparr>cr_Ready := Some Creating\<rparr>),
                ((CallCreate (repoToCreate cr), None) # log, s2))"
    using assms g l
    by (cases err) (simp_all add: Create_def Let_def recording_Create err_of_def)
  with r b show ?thesis
    by blast
qed

text \<open>
  Claim C7. \<open>Create\<close> first calls the creation of the repository; when that call
  fails, its error is returned and no other call is made. When it succeeds, \<open>Create\<close>
  calls \<open>AddGroup\<close> on the created repository for each desired grant, in the order of
  the desired list; the first \<open>AddGroup\<close> that fails is the last call made and its
  error is the one returned, and with no failure every grant is added and nil is
  returned. The error and the state of the server are those of the loop over the grants
  on the plain service. No call of \<open>Create\<close> deletes the repository or revokes a
  grant, so nothing that was applied is rolled back.
\<close>

theorem Create_calls:
  "(svc_Create c (repoToCreate cr) s = (Inl err, s1) \<longrightarrow>
      returned_error (Create (recording c) (RepositoryMG cr) ([], s)) = Some err
    \<and> calls_made (Create (recording c) (RepositoryMG cr) ([], s))
        = [(CallCreate (repoToCreate cr), Some err)])
   \<and> (svc_Create c (repoToCreate cr) s = (Inr repository, s1) \<longrightarrow>
      runs_until_first_failure (Create_plan cr repository)
        (calls_made (Create (recording c) (RepositoryMG cr) ([], s)))
        (returned_error (Create (recording c) (RepositoryMG cr) ([], s)))
    \<and> returned_error (Create (recording c) (RepositoryMG cr) ([], s))
        = fst (Create_groups c repository (elems (p_Groups (cr_ForProvider cr))) s1)
    \<and> snd (snd (snd (Create (recording c) (RepositoryMG cr) ([], s))))
        = snd (Create_groups c repository (elems (p_Groups (cr_ForProvider cr))) s1))
   \<and> list_all (\<lambda>e. \<not> undoes (fst e))
        (calls_made (Create (recording c) (RepositoryMG cr) ([], s)))"
proof (intro conjI impI)
  assume a: "svc_Create c (repoToCreate cr) s = (Inl err, s1)"
  then show "returned_error (Create (recording c) (RepositoryMG cr) ([], s)) = Some err"
    by (simp add: Create_def Let_def recording_Create returned_error_def)
  from a show "calls_made (Create (recording c) (RepositoryMG cr) ([], s))
        = [(CallCreate (repoToCreate cr), Some err)]"
    by (simp add: Create_def Let_def recording_Create calls_made_def err_of_def)
next
  assume a: "svc_Create c (repoToCreate cr) s = (Inr repository, s1)"
  from Create_recorded [OF a] obtain log e s2 where
    b: "Create_groups c repository (elems (p_Groups (cr_ForProvider cr))) s1 = (e, s2)"
    and r: "runs_until_first_failure
             (map (\<lambda>g. CallAddGroup repository (toGroup g)) (elems (p_Groups (cr_ForProvider cr))))
             log e"
    and R: "Create (recording c) (RepositoryMG cr) ([], s)
             = ((\<lparr>creation_ConnectionDetails = (if e = None then Some [] else None)\<rparr>, e),
                RepositoryMG (if e = None
                              then cr\<lparr>cr_Ready := Some Creating,
                                       cr_ExternalName := Some (r_Name repository)\<rparr>
                              else cr\<lparr>cr_Ready := Some Creating\<rparr>),
                ((CallCreate (repoToCreate cr), None) # log, s2))"
    by blast
  show "runs_until_first_failure (Create_plan cr repository)
        (calls_made (Create (recording c) (RepositoryMG cr) ([], s)))
        (returned_error (Create (recording c) (RepositoryMG cr) ([], s)))"
    using r by (simp add: R Create_plan_def calls_made_def returned_error_def)
  show "returned_error (Create (recording c) (RepositoryMG cr) ([], s))
        = fst (Create_groups c repository (elems (p_Groups (cr_ForProvider cr))) s1)"
    using b by (simp add: R returned_error_def)
  show "snd (snd (snd (Create (recording c) (RepositoryMG cr) ([], s))))
        = snd (Create_groups c repository (elems (p_Groups (cr_ForProvider cr))) s1)"
    using b by (simp add: R)
next
  show "list_all (\<lambda>e. \<not> undoes (fst e))
        (calls_made (Create (recording c) (RepositoryMG cr) ([], s)))"
  proof (cases "svc_Create c (repoToCreate cr) s")
    case (Pair res s1)
    show ?thesis
    proof (cases res)
      case (Inl err)
      with Pair show ?thesis
        by (simp add: Create_def Let_def recording_Create calls_made_def err_of_def)
    next
      case (Inr repository)
      with Pair have a: "svc_Create c (repoToCreate cr) s = (Inr repository, s1)"
        by simp
      from Create_recorded [OF a] obtain log e s2 where
        r: "runs_until_first_failure
             (map (\<lambda>g. CallAddGroup repository (toGroup g)) (elems (p_Groups (cr_ForProvider cr))))
             log e"
        and R: "calls_made (Create (recording c) (RepositoryMG cr) ([], s))
                  = (CallCreate (repoToCreate cr), None) # log"
        by (auto simp: calls_made_def)
      have "runs_until_first_failure (Create_plan cr repository)
              ((CallCreate (repoToCreate cr), None) # log) e"
        using r by (simp add: Create_plan_def)
      from no_undo_in_plan [OF this Create_plan_no_undo] R show ?thesis
        by simp
    qed
  qed
qed

text \<open>
  The theorem of claim C7 on the scenario of the specification: on a server without
  the repository, \<open>Create\<close> creates it, adds the one grant, and a following \<open>Observe\<close>
  finds the repository up to date.
\<close>

theorem Create_calls_witness:
  "svc_Create fakeService (repoToCreate example_cr) (empty_server [])
     = (Inr (update_repo ''x''), (empty_server [])\<lparr>fake_repo := Some (update_repo ''x'')\<rparr>)
   \<and> runs_until_first_failure (Create_plan example_cr (update_repo ''x''))
        (calls_made (Create (recording fakeService) (RepositoryMG example_cr)
                       ([], empty_server [])))
        (returned_error (Create (recording fakeService) (RepositoryMG example_cr)
                       ([], empty_server [])))
   \<and> calls_made (Create (recording fakeService) (RepositoryMG example_cr) ([], empty_server []))
     = [(CallCreate (repoToCreate example_cr), None),
        (CallAddGroup (update_repo ''x'') \<lparr>g_Name = ''devs'', g_Permission = ''write''\<rparr>, None)]
   \<and> returned_error (Create (recording fakeService) (RepositoryMG example_cr)
                       ([], empty_server [])) = None
   \<and> fst (Observe fakeService (RepositoryMG example_cr)
            (snd (snd (snd (Create (recording fakeService) (RepositoryMG example_cr)
                             ([], empty_server []))))))
     = (\<lparr>ResourceExists = True, ResourceUpToDate = True, obs_ConnectionDetails = Some []\<rparr>, None)"
proof -
  let ?s1 = "(empty_server [])\<lparr>fake_repo := Some (update_repo ''x'')\<rparr>"
  let ?R = "Create (recording fakeService) (RepositoryMG example_cr) ([], empty_server [])"
  have u: "svc_Create fakeService (repoToCreate example_cr) (empty_server [])
             = (Inr (update_repo ''x''), ?s1)"
    by (simp add: fake_service_defs)
  have r: "runs_until_first_failure (Create_plan example_cr (update_repo ''x''))
             (calls_made ?R) (returned_error ?R)"
    using Create_calls [where c = fakeService and cr = example_cr and s = "empty_server []"
        and repository = "update_repo ''x''" and ?s1.0 = ?s1] u
    by blast
  have R: "?R = ((\<lparr>creation_ConnectionDetails = Some []\<rparr>, None),
     RepositoryMG (example_cr\<lparr>cr_Ready := Some Creating, cr_ExternalName := Some ''svc''\<rparr>),
     ([(CallCreate (repoToCreate example_cr), None),
       (CallAddGroup (update_repo ''x'') \<lparr>g_Name = ''devs'', g_Permission = ''write''\<rparr>, None)],
      \<lparr>fake_repo = Some (update_repo ''x''),
       fake_groups = [\<lparr>g_Name = ''devs'', g_Permission = ''write''\<rparr>],
       fake_failing = []\<rparr>))"
    by (simp add: Create_def Let_def fake_service_defs)
  have c: "calls_made ?R
     = [(CallCreate (repoToCreate example_cr), None),
        (CallAddGroup (update_repo ''x'') \<lparr>g_Name = ''devs'', g_Permission = ''write''\<rparr>, None)]"
    by (simp add: R calls_made_def)
  have e: "returned_error ?R = None"
    by (simp add: R returned_error_def)
  have ob: "fst (Observe fakeService (RepositoryMG example_cr) (snd (snd (snd ?R))))
     = (\<lparr>ResourceExists = True, ResourceUpToDate = True, obs_ConnectionDetails = Some []\<rparr>, None)"
    unfolding R by (simp add: Observe_def groupsEqual_def fake_service_defs)
  from u r c e ob show ?thesis
    by (intro conjI)
qed

text \<open>
  When the server refuses the grant, \<open>Create\<close> returns the error and the repository
  stays on the server.
\<close>

lemma Create_aborts_example:
  "Create (recording fakeService) (RepositoryMG example_cr)
     ([], empty_server
            [(CallAddGroup (update_repo ''x'') \<lparr>g_Name = ''devs'', g_Permission = ''write''\<rparr>,
              ErrPermission)])
   = ((\<lparr>creation_ConnectionDetails = None\<rparr>, Some ErrPermission),
      RepositoryMG (example_cr\<lparr>cr_Ready := Some Creating\<rparr>),
      ([(CallCreate (repoToCreate example_cr), None),
        (CallAddGroup (update_repo ''x'') \<lparr>g_Name = ''devs'', g_Permission = ''write''\<rparr>,
         Some ErrPermission)],
       \<lparr>fake_repo = Some (update_repo ''x''),
        fake_groups = [],
        fake_failing =
          [(CallAddGroup (update_repo ''x'') \<lparr>g_Name = ''devs'', g_Permission = ''write''\<rparr>,
            ErrPermission)]\<rparr>))"
  by (simp add: Create_def Let_def fake_service_defs)

section \<open>The visibility flag\<close>

lemma set_Public_fields [simp]:
  "repoRef (set_Public b cr) = repoRef cr"
  "repoToCreate (set_Public b cr) = repoToCreate cr"
  "repoToUpdate (set_Public b cr) = repoToUpdate cr"
  "p_Groups (cr_ForProvider (set_Public b cr)) = p_Groups (cr_ForProvider cr)"
  "p_Description (cr_ForProvider (set_Public b cr)) = p_Description (cr_ForProvider cr)"
  by (simp_all add: set_Public_def repoRef_def repoToCreate_def repoToUpdate_def)

lemma set_Public_commute [simp]:
  "(set_Public b cr)\<lparr>cr_Ready := x\<rparr> = set_Public b (cr\<lparr>cr_Ready := x\<rparr>)"
  "(set_Public b cr)\<lparr>cr_ExternalName := y\<rparr> = set_Public b (cr\<lparr>cr_ExternalName := y\<rparr>)"
  "(set_Public b cr)\<lparr>cr_AtProvider_ID := i\<rparr> = set_Public b (cr\<lparr>cr_AtProvider_ID := i\<rparr>)"
  by (simp_all add: set_Public_def)

lemma Observe_Public:
  "Observe c (RepositoryMG (set_Public b cr)) s
     = (case Observe c (RepositoryMG cr) s of (r, mg, s1) \<Rightarrow> (r, Managed_set_Public b mg, s1))"
  by (simp add: Observe_def Managed_set_Public_def Let_def split: prod.splits sum.splits)

lemma Create_Public:
  "Create c (RepositoryMG (set_Public b cr)) s
     = (case Create c (RepositoryMG cr) s of (r, mg, s1) \<Rightarrow> (r, Managed_set_Public b mg, s1))"
  by (simp add: Create_def Managed_set_Public_def Let_def split: prod.splits sum.splits option.splits)

lemma Update_Public:
  "Update c (RepositoryMG (set_Public b cr)) s
     = (case Update c (RepositoryMG cr) s of (r, mg, s1) \<Rightarrow> (r, Managed_set_Public b mg, s1))"
  by (simp add: Update_def Managed_set_Public_def split: prod.splits sum.splits option.splits)

lemma Delete_Public:
  "Delete c (RepositoryMG (set_Public b cr)) s
     = (case Delete c (RepositoryMG cr) s of (r, mg, s1) \<Rightarrow> (r, Managed_set_Public b mg, s1))"
  by (simp add: Delete_def Managed_set_Public_def Let_def split: prod.splits)

text \<open>
  Claim C8. Two desired states that differ only in the flag \<open>public\<close> get the same
  behaviour from every operation of the controller: \<open>Observe\<close>, \<open>Create\<close>, \<open>Update\<close>
  and \<open>Delete\<close> return the same values and leave the server in the same state, and the
  resource they leave differs only in the flag. In particular \<open>Observe\<close> returns the
  same observation. The records sent to the service by \<open>Create\<close> and \<open>Update\<close> are the
  same for both, with the visibility always false, and so are the calls they make.
\<close>

theorem Public_never_read:
  "Observe c (RepositoryMG (set_Public b cr)) s
     = (case Observe c (RepositoryMG cr) s of (r, mg, s1) \<Rightarrow> (r, Managed_set_Public b mg, s1))
   \<and> Create c (RepositoryMG (set_Public b cr)) s
     = (case Create c (RepositoryMG cr) s of (r, mg, s1) \<Rightarrow> (r, Managed_set_Public b mg, s1))
   \<and> Update c (RepositoryMG (set_Public b cr)) s
     = (case Update c (RepositoryMG cr) s of (r, mg, s1) \<Rightarrow> (r, Managed_set_Public b mg, s1))
   \<and> Delete c (RepositoryMG (set_Public b cr)) s
     = (case Delete c (RepositoryMG cr) s of (r, mg, s1) \<Rightarrow> (r, Managed_set_Public b mg, s1))
   \<and> returned (Observe c (RepositoryMG (set_Public b cr)) s)
     = returned (Observe c (RepositoryMG cr) s)
   \<and> repoToCreate (set_Public b cr) = repoToCreate cr
   \<and> repoToUpdate (set_Public b cr) = repoToUpdate cr
   \<and> r_Public (repoToCreate cr) = False
   \<and> r_Public (repoToUpdate cr) = False
   \<and> calls_made (Create (recording c0) (RepositoryMG (set_Public b cr)) ([], s0))
     = calls_made (Create (recording c0) (RepositoryMG cr) ([], s0))
   \<and> calls_made (Update (recording c0) (RepositoryMG (set_Public b cr)) ([], s0))
     = calls_made (Update (recording c0) (RepositoryMG cr) ([], s0))"
proof (intro conjI)
  show "returned (Observe c (RepositoryMG (set_Public b cr)) s)
     = returned (Observe c (RepositoryMG cr) s)"
    by (simp add: Observe_Public returned_def split: prod.splits)
  show "calls_made (Create (recording c0) (RepositoryMG (set_Public b cr)) ([], s0))
     = calls_made (Create (recording c0) (RepositoryMG cr) ([], s0))"
    by (simp add: Create_Public calls_made_def split: prod.splits)
  show "calls_made (Update (recording c0) (RepositoryMG (set_Public b cr)) ([], s0))
     = calls_made (Update (recording c0) (RepositoryMG cr) ([], s0))"
    by (simp add: Update_Public calls_made_def split: prod.splits)
  show "r_Public (repoToCreate cr) = False"
    by (simp add: repoToCreate_def)
  show "r_Public (repoToUpdate cr) = False"
    by (simp add: repoToUpdate_def)
qed (simp_all add: Observe_Public Create_Public Update_Public Delete_Public)

text \<open>
  The theorem of claim C8 on the desired state of the scenario with the flag set: the
  observation is the one for the flag unset, and \<open>Create\<close> sends the same record.
\<close>

theorem Public_never_read_witness:
  "p_Public (cr_ForProvider (set_Public True example_cr))
   \<and> \<not> p_Public (cr_ForProvider example_cr)
   \<and> returned (Observe fakeService (RepositoryMG (set_Public True example_cr))
        \<lparr>fake_repo = Some (update_repo ''x''),
         fake_groups = [\<lparr>g_Name = ''devs'', g_Permission = ''write''\<rparr>],
         fake_failing = []\<rparr>)
     = \<lparr>ResourceExists = True, ResourceUpToDate = True, obs_ConnectionDetails = Some []\<rparr>
   \<and> returned (Observe fakeService (RepositoryMG example_cr)
        \<lparr>fake_repo = Some (update_repo ''x''),
         fake_groups = [\<lparr>g_Name = ''devs'', g_Permission = ''write''\<rparr>],
         fake_failing = []\<rparr>)
     = \<lparr>ResourceExists = True, ResourceUpToDate = True, obs_ConnectionDetails = Some []\<rparr>
   \<and> calls_made (Create (recording fakeService) (RepositoryMG (set_Public True example_cr))
                    ([], empty_server []))
     = [(CallCreate (update_repo ''x'' \<lparr>r_ID := 0\<rparr>), None),
        (CallAddGroup (update_repo ''x'') \<lparr>g_Name = ''devs'', g_Permission = ''write''\<rparr>, None)]"
proof -
  let ?srv = "\<lparr>fake_repo = Some (update_repo ''x''),
         fake_groups = [\<lparr>g_Name = ''devs'', g_Permission = ''write''\<rparr>],
         fake_failing = []\<rparr>"
  note T = Public_never_read [where c = fakeService and b = True and cr = example_cr
      and s = ?srv and ?c0.0 = fakeService and ?s0.0 = "empty_server []"]
  have p: "p_Public (cr_ForProvider (set_Public True example_cr))"
    by (simp add: set_Public_def)
  have q: "\<not> p_Public (cr_ForProvider example_cr)"
    by (simp add: example_cr_def)
  have o: "returned (Observe fakeService (RepositoryMG example_cr) ?srv)
     = \<lparr>ResourceExists = True, ResourceUpToDate = True, obs_ConnectionDetails = Some []\<rparr>"
    by (simp add: Observe_def groupsEqual_def returned_def fake_service_defs)
  have "returned (Observe fakeService (RepositoryMG (set_Public True example_cr)) ?srv)
     = returned (Observe fakeService (RepositoryMG example_cr) ?srv)"
    using T by blast
  with o have o1: "returned (Observe fakeService (RepositoryMG (set_Public True example_cr)) ?srv)
     = \<lparr>ResourceExists = True, ResourceUpToDate = True, obs_ConnectionDetails = Some []\<rparr>"
    by simp
  have c: "calls_made (Create (recording fakeService) (RepositoryMG example_cr)
                    ([], empty_server []))
     = [(CallCreate (update_repo ''x'' \<lparr>r_ID := 0\<rparr>), None),
        (CallAddGroup (update_repo ''x'') \<lparr>g_Name = ''devs'', g_Permission = ''write''\<rparr>, None)]"
    by (simp add: Create_def Let_def calls_made_def fake_service_defs)
  have "calls_made (Create (recording fakeService) (RepositoryMG (set_Public True example_cr))
                    ([], empty_server []))
     = calls_made (Create (recording fakeService) (RepositoryMG example_cr) ([], empty_server []))"
    using T by blast
  with c have c1: "calls_made (Create (recording fakeService)
                     (RepositoryMG (set_Public True example_cr)) ([], empty_server []))
     = [(CallCreate (update_repo ''x'' \<lparr>r_ID := 0\<rparr>), None),
        (CallAddGroup (update_repo ''x'') \<lparr>g_Name = ''devs'', g_Permission = ''write''\<rparr>, None)]"
    by simp
  from p q o1 o c1 show ?thesis
    by (intro conjI)
qed

section \<open>Observe: a listing of the grants that fails\<close>

lemma groupsEqual_nil:
  "groupsEqual crGroups None \<longleftrightarrow> len crGroups = 0"
  by (cases crGroups) (simp_all add: groupsEqual_def len_def elems_def)

lemma repositoryService_GetGroups_error_nil:
  assumes "repositoryService_GetGroups L D cl repository w = ((groups, Some err), w1)"
  shows "groups = None"
  using assms
  by (auto simp: repositoryService_GetGroups_def Let_def split: sum.splits prod.splits option.splits)

text \<open>
  Claim C9. When the fetch of the repository succeeds, the descriptions agree and the
  listing of the grants fails, \<open>GetGroups\<close> has returned a nil slice with its error,
  and \<open>Observe\<close> drops the error and compares the nil slice with the desired grants:
  it returns a nil error and \<open>ResourceExists = true\<close>, with
  \<open>ResourceUpToDate = true\<close> when there is no desired grant and
  \<open>ResourceUpToDate = false\<close> otherwise.
\<close>

theorem Observe_GetGroups_error_ignored:
  assumes "repositoryService_Get L D cl (repoRef cr) w = (Inr repository, w1)"
    and "r_Description repository = p_Description (cr_ForProvider cr)"
    and "repositoryService_GetGroups L D cl repository w1 = ((groups, Some err), w2)"
  shows "groups = None
       \<and> Observe (repositoryService L D cl) (RepositoryMG cr) w =
           ((\<lparr>ResourceExists = True,
              ResourceUpToDate = (len (p_Groups (cr_ForProvider cr)) = 0),
              obs_ConnectionDetails =
                (if len (p_Groups (cr_ForProvider cr)) = 0 then Some [] else None)\<rparr>,
             None),
            RepositoryMG (cr\<lparr>cr_Ready := Some Available, cr_AtProvider_ID := r_ID repository\<rparr>),
            w2)"
proof -
  have n: "groups = None"
    using assms(3) by (rule repositoryService_GetGroups_error_nil)
  show ?thesis
    using assms n
    by (simp add: Observe_def repositoryService_def groupsEqual_nil)
qed

text \<open>
  The theorem of claim C9 on a server that answers 500 to the listing of the grants,
  for a desired state with one grant and for one with none.
\<close>

theorem Observe_GetGroups_error_ignored_witness:
  "fst (repositoryService_Get fakeLibrary
          (fakeDecoders ''R''
             \<lparr>j_ID = 7, j_Name = ''svc'', j_Project_Key = ''CORE'', j_Description = ''x''\<rparr>
             '''' \<lparr>Values = None\<rparr>)
          (fakeClient
             [(''GET'', ''https://bitbucket.example/rest/api/1.0/projects/CORE/repos/svc'',
               200, ''R''),
              (''GET'', ''https://bitbucket.example/rest/api/1.0/projects/CORE/repos/svc/permissions/groups'',
               500, '''')])
          (repoRef example_cr) [])
     = Inr \<lparr>r_ID = 7, r_Name = ''svc'', r_Public = False, r_Project = ''CORE'',
            r_Description = ''x''\<rparr>
   \<and> fst (Observe (repositoryService fakeLibrary
          (fakeDecoders ''R''
             \<lparr>j_ID = 7, j_Name = ''svc'', j_Project_Key = ''CORE'', j_Description = ''x''\<rparr>
             '''' \<lparr>Values = None\<rparr>)
          (fakeClient
             [(''GET'', ''https://bitbucket.example/rest/api/1.0/projects/CORE/repos/svc'',
               200, ''R''),
              (''GET'', ''https://bitbucket.example/rest/api/1.0/projects/CORE/repos/svc/permissions/groups'',
               500, '''')]))
          (RepositoryMG example_cr) [])
       = (\<lparr>ResourceExists = True, ResourceUpToDate = False, obs_ConnectionDetails = None\<rparr>, None)
   \<and> fst (Observe (repositoryService fakeLibrary
          (fakeDecoders ''R''
             \<lparr>j_ID = 7, j_Name = ''svc'', j_Project_Key = ''CORE'', j_Description = ''x''\<rparr>
             '''' \<lparr>Values = None\<rparr>)
          (fakeClient
             [(''GET'', ''https://bitbucket.example/rest/api/1.0/projects/CORE/repos/svc'',
               200, ''R''),
              (''GET'', ''https://bitbucket.example/rest/api/1.0/projects/CORE/repos/svc/permissions/groups'',
               500, '''')]))
          (RepositoryMG (example_cr\<lparr>cr_ForProvider :=
                           (cr_ForProvider example_cr)\<lparr>p_Groups := None\<rparr>\<rparr>)) [])
       = (\<lparr>ResourceExists = True, ResourceUpToDate = True, obs_ConnectionDetails = Some []\<rparr>, None)"
proof -
  let ?D = "fakeDecoders ''R''
             \<lparr>j_ID = 7, j_Name = ''svc'', j_Project_Key = ''CORE'', j_Description = ''x''\<rparr>
             '''' \<lparr>Values = None\<rparr>"
  let ?cl = "fakeClient
             [(''GET'', ''https://bitbucket.example/rest/api/1.0/projects/CORE/repos/svc'',
               200, ''R''),
              (''GET'', ''https://bitbucket.example/rest/api/1.0/projects/CORE/repos/svc/permissions/groups'',
               500, '''')]"
  let ?req = "\<lparr>req_Method = ''GET'',
        req_URL = ''https://bitbucket.example/rest/api/1.0/projects/CORE/repos/svc'',
        req_Body = None,
        req_Header = [(''Authorization'', ''Bearer token''), (''Accept'', ''application/json'')]\<rparr>"
  let ?greq = "\<lparr>req_Method = ''GET'',
        req_URL = ''https://bitbucket.example/rest/api/1.0/projects/CORE/repos/svc/permissions/groups'',
        req_Body = None,
        req_Header = [(''Authorization'', ''Bearer token''), (''Accept'', ''application/json'')]\<rparr>"
  let ?repo = "\<lparr>r_ID = 7, r_Name = ''svc'', r_Public = False, r_Project = ''CORE'',
            r_Description = ''x''\<rparr>"
  let ?cr0 = "example_cr\<lparr>cr_ForProvider := (cr_ForProvider example_cr)\<lparr>p_Groups := None\<rparr>\<rparr>"
  have h: "repositoryService_Get fakeLibrary ?D ?cl (repoRef example_cr) [] = (Inr ?repo, [?req])"
    by (simp add: fake_http_defs)
  have h0: "repositoryService_Get fakeLibrary ?D ?cl (repoRef ?cr0) [] = (Inr ?repo, [?req])"
    by (simp add: fake_http_defs)
  have d: "r_Description ?repo = p_Description (cr_ForProvider example_cr)"
    by (simp add: example_cr_def)
  have d0: "r_Description ?repo = p_Description (cr_ForProvider ?cr0)"
    by (simp add: example_cr_def)
  have g: "repositoryService_GetGroups fakeLibrary ?D ?cl ?repo [?req]
             = ((None, Some (Wrap ''error getting repository group''
                   (StatusError ''https://bitbucket.example/rest/api/1.0/projects/CORE/repos/svc/permissions/groups'' 500))),
                [?req, ?greq])"
    by (simp add: fake_http_defs)
  from Observe_GetGroups_error_ignored [OF h d g]
       Observe_GetGroups_error_ignored [OF h0 d0 g] h
  show ?thesis
    by (simp add: example_cr_def len_def)
qed

section \<open>Listing the grants\<close>

lemma GetGroups_append_map:
  "GetGroups_append groups entries
     = groups @ map (\<lambda>e. \<lparr>g_Name = e_Group_Name e, g_Permission = e_Permission e\<rparr>) entries"
  by (induction entries arbitrary: groups) simp_all

lemma handleResponse_target:
  "handleResponse unmarshal res (Some t) = (err, v1) \<Longrightarrow> \<exists>t1. v1 = Some t1"
  by (auto simp: handleResponse_def split: sum.splits if_splits prod.splits option.splits)

lemma do_target:
  "do unmarshal c req (Some t) w = ((err, v1), w1) \<Longrightarrow> \<exists>t1. v1 = Some t1"
  by (auto simp: do_def split: sum.splits prod.splits dest: handleResponse_target)

text \<open>
  Claim C10. When the request for the permissions listing is built and its exchange
  and decoding succeed, \<open>GetGroups\<close> returns the grants of the decoded "values"
  entries, one (name, permission) grant per entry and in their order, with a nil
  error. The slice it returns is never nil: with no entry it is the empty slice.
\<close>

theorem GetGroups_success:
  assumes "newRequest L c ''GET'' (repo_path repository @ ''/permissions/groups'') None = Inr req"
    and "do (json_Unmarshal_GroupsResponse D) c req (Some \<lparr>Values = None\<rparr>) w = ((None, v1), w1)"
  shows "\<exists>response. v1 = Some response
           \<and> repositoryService_GetGroups L D c repository w
               = ((Some (map (\<lambda>e. \<lparr>g_Name = e_Group_Name e, g_Permission = e_Permission e\<rparr>)
                           (elems (Values response))), None), w1)
           \<and> fst (fst (repositoryService_GetGroups L D c repository w)) \<noteq> None
           \<and> (elems (Values response) = [] \<longrightarrow>
                fst (fst (repositoryService_GetGroups L D c repository w)) = Some [])"
proof -
  from do_target [OF assms(2)] obtain response where r: "v1 = Some response"
    by blast
  have "repositoryService_GetGroups L D c repository w
          = ((Some (map (\<lambda>e. \<lparr>g_Name = e_Group_Name e, g_Permission = e_Permission e\<rparr>)
                      (elems (Values response))), None), w1)"
    using assms r
    by (simp add: repositoryService_GetGroups_def Let_def deref_def GetGroups_append_map)
  with r show ?thesis
    by simp
qed

text \<open>
  The theorem of claim C10 on a listing of two entries and on a listing without a
  "values" field.
\<close>

theorem GetGroups_success_witness:
  "newRequest fakeLibrary
     (fakeClient [(''GET'',
        ''https://bitbucket.example/rest/api/1.0/projects/CORE/repos/svc/permissions/groups'',
        200, ''G'')])
     ''GET'' (repo_path (repoRef example_cr) @ ''/permissions/groups'') None
   = Inr \<lparr>req_Method = ''GET'',
          req_URL = ''https://bitbucket.example/rest/api/1.0/projects/CORE/repos/svc/permissions/groups'',
          req_Body = None,
          req_Header = [(''Authorization'', ''Bearer token''), (''Accept'', ''application/json'')]\<rparr>
   \<and> repositoryService_GetGroups fakeLibrary
       (fakeDecoders '''' repositoryJson_zero ''G''
          \<lparr>Values = Some [\<lparr>e_Group_Name = ''devs'', e_Permission = ''REPO_WRITE''\<rparr>,
                           \<lparr>e_Group_Name = ''ops'', e_Permission = ''REPO_ADMIN''\<rparr>]\<rparr>)
       (fakeClient [(''GET'',
          ''https://bitbucket.example/rest/api/1.0/projects/CORE/repos/svc/permissions/groups'',
          200, ''G'')])
       (repoRef example_cr) []
     = ((Some [\<lparr>g_Name = ''devs'', g_Permission = ''REPO_WRITE''\<rparr>,
               \<lparr>g_Name = ''ops'', g_Permission = ''REPO_ADMIN''\<rparr>], None),
        [\<lparr>req_Method = ''GET'',
          req_URL = ''https://bitbucket.example/rest/api/1.0/projects/CORE/repos/svc/permissions/groups'',
          req_Body = None,
          req_Header = [(''Authorization'', ''Bearer token''), (''Accept'', ''application/json'')]\<rparr>])
   \<and> fst (repositoryService_GetGroups fakeLibrary
       (fakeDecoders '''' repositoryJson_zero ''G'' \<lparr>Values = None\<rparr>)
       (fakeClient [(''GET'',
          ''https://bitbucket.example/rest/api/1.0/projects/CORE/repos/svc/permissions/groups'',
          200, ''G'')])
       (repoRef example_cr) [])
     = (Some [], None)"
proof -
  let ?cl = "fakeClient [(''GET'',
        ''https://bitbucket.example/rest/api/1.0/projects/CORE/repos/svc/permissions/groups'',
        200, ''G'')]"
  let ?req = "\<lparr>req_Method = ''GET'',
          req_URL = ''https://bitbucket.example/rest/api/1.0/projects/CORE/repos/svc/permissions/groups'',
          req_Body = None,
          req_Header = [(''Authorization'', ''Bearer token''), (''Accept'', ''application/json'')]\<rparr>"
  let ?resp = "\<lparr>Values = Some [\<lparr>e_Group_Name = ''devs'', e_Permission = ''REPO_WRITE''\<rparr>,
                           \<lparr>e_Group_Name = ''ops'', e_Permission = ''REPO_ADMIN''\<rparr>]\<rparr>"
  let ?D = "fakeDecoders '''' repositoryJson_zero ''G'' ?resp"
  let ?E = "fakeDecoders '''' repositoryJson_zero ''G'' \<lparr>Values = None\<rparr>"
  have n: "newRequest fakeLibrary ?cl ''GET''
             (repo_path (repoRef example_cr) @ ''/permissions/groups'') None = Inr ?req"
    by (simp add: fake_http_defs)
  have d: "do (json_Unmarshal_GroupsResponse ?D) ?cl ?req (Some \<lparr>Values = None\<rparr>) []
             = ((None, Some ?resp), [?req])"
    by (simp add: fake_http_defs)
  have d0: "do (json_Unmarshal_GroupsResponse ?E) ?cl ?req (Some \<lparr>Values = None\<rparr>) []
             = ((None, Some \<lparr>Values = None\<rparr>), [?req])"
    by (simp add: fake_http_defs)
  from GetGroups_success [OF n d] GetGroups_success [OF n d0] n show ?thesis
    by (simp add: elems_def)
qed

end
